theory Spec2Isabelle
  imports Complex_Main
begin

section \<open>JavaScript values\<close>

text \<open>
  The program is TypeScript running in a browser. A JavaScript \<open>number\<close> is a double: it
  is modelled by the real it stands for. The arithmetic of the clock rounds each result
  to the nearest double, as the machine does, because what is claimed of the clock
  depends on it; elsewhere the arithmetic is written without rounding. An object handed
  out by the WebGL context (a shader, a buffer, a texture) is a handle. A thrown
  exception is a value of \<open>js_error\<close>; a function that may throw returns
  \<open>js_error + 'a\<close> together with the context it leaves behind.
\<close>

type_synonym number = real

type_synonym handle = nat

datatype js_error = Error string | TypeError string

text \<open>
  A property of an object literal is either not an own property of the object, or holds
  \<open>null\<close>, or holds an object: \<open>createFramebuffer\<close> returns three properties,
  \<open>createFramebufferFloat\<close> only two of them.
\<close>

datatype 'a slot = Missing | Null | Handle 'a

section \<open>Double arithmetic\<close>

text \<open>
  Rounding to the nearest double, ties to even: a significand of 53 bits. The exponent is
  not limited, so overflow to \<open>Infinity\<close>, \<open>NaN\<close> and subnormal numbers are outside the
  model. \<open>pow2 e\<close> is 2 to the power \<open>e\<close>; \<open>exponent x\<close>, for a positive \<open>x\<close>, is the
  \<open>e\<close> with \<open>pow2 e \<le> x < pow2 (e + 1)\<close>, found by halving or doubling; \<open>rne\<close> rounds a
  real to the nearest integer, ties to even.
\<close>

definition pow2 :: "int \<Rightarrow> real" where
  "pow2 e = (if 0 \<le> e then 2 ^ nat e else 1 / 2 ^ nat (- e))"

function halvings :: "real \<Rightarrow> nat" where
  "halvings x = (if 2 \<le> x then Suc (halvings (x / 2)) else 0)"
  by pat_completeness auto
termination
proof (relation "measure (\<lambda>x. nat \<lceil>x\<rceil>)")
  show "wf (measure (\<lambda>x::real. nat \<lceil>x\<rceil>))" by simp
next
  fix x :: real
  assume "2 \<le> x"
  then have "x / 2 \<le> x - 1" by simp
  then have "\<lceil>x / 2\<rceil> \<le> \<lceil>x - 1\<rceil>" by (rule ceiling_mono)
  moreover from \<open>2 \<le> x\<close> have "0 < \<lceil>x\<rceil>" by simp
  ultimately show "(x / 2, x) \<in> measure (\<lambda>x. nat \<lceil>x\<rceil>)" by simp
qed

function doublings :: "real \<Rightarrow> nat" where
  "doublings x = (if 0 < x \<and> x < 1 then Suc (doublings (2 * x)) else 0)"
  by pat_completeness auto
termination
proof (relation "measure (\<lambda>x. nat \<lceil>1 / x\<rceil>)")
  show "wf (measure (\<lambda>x::real. nat \<lceil>1 / x\<rceil>))" by simp
next
  fix x :: real
  assume a: "0 < x \<and> x < 1"
  then have y: "1 < 1 / x" by simp
  then have "2 \<le> \<lceil>1 / x\<rceil>" by linarith
  have "1 / (2 * x) = (1 / x) / 2" by simp
  also have "\<dots> \<le> of_int \<lceil>1 / x\<rceil> / 2" by (simp add: divide_right_mono)
  also have "\<dots> \<le> of_int (\<lceil>1 / x\<rceil> - 1)" using \<open>2 \<le> \<lceil>1 / x\<rceil>\<close> by simp
  finally have "\<lceil>1 / (2 * x)\<rceil> \<le> \<lceil>1 / x\<rceil> - 1" by (rule ceiling_le)
  with \<open>2 \<le> \<lceil>1 / x\<rceil>\<close> have "nat \<lceil>1 / (2 * x)\<rceil> < nat \<lceil>1 / x\<rceil>" by linarith
  then show "(2 * x, x) \<in> measure (\<lambda>x. nat \<lceil>1 / x\<rceil>)" by simp
qed

definition exponent :: "real \<Rightarrow> int" where
  "exponent x = (if 1 \<le> x then int (halvings x) else - int (doublings x))"

definition rne :: "real \<Rightarrow> int" where
  "rne x =
     (let f = \<lfloor>x\<rfloor>
      in if x - of_int f < 1 / 2 then f
         else if 1 / 2 < x - of_int f then f + 1
         else if even f then f else f + 1)"

definition binary64 :: "real \<Rightarrow> real" where
  "binary64 x =
     (if x = 0 then 0
      else let u = pow2 (exponent \<bar>x\<bar> - 52)
           in sgn x * of_int (rne (\<bar>x\<bar> / u)) * u)"

text \<open>The four operations on doubles, and what it is to be a double.\<close>

definition fadd :: "number \<Rightarrow> number \<Rightarrow> number" where
  "fadd a b = binary64 (a + b)"

definition fsub :: "number \<Rightarrow> number \<Rightarrow> number" where
  "fsub a b = binary64 (a - b)"

definition fmul :: "number \<Rightarrow> number \<Rightarrow> number" where
  "fmul a b = binary64 (a * b)"

definition fdiv :: "number \<Rightarrow> number \<Rightarrow> number" where
  "fdiv a b = binary64 (a / b)"

definition is_double :: "number \<Rightarrow> bool" where
  "is_double a = (binary64 a = a)"

section \<open>The WebGL context\<close>

datatype shader_type = VERTEX_SHADER | FRAGMENT_SHADER

datatype gl_object = Shader shader_type | Program | Buffer | Framebuffer | Renderbuffer | Texture

datatype buffer_target = ARRAY_BUFFER | ELEMENT_ARRAY_BUFFER

datatype typed_array = Float32Array "number list" | Int16Array "number list" | Uint32Array "number list"

datatype uniform_value = Scalar number | Floats "number list"

text \<open>
  Every command the code sends to the context, and every message it sends to the page
  (\<open>alert\<close>, \<open>console.warn\<close>), is recorded in order. Queries (\<open>isTexture\<close>,
  \<open>getShaderParameter\<close>, ...) read the context and are not recorded.
\<close>

datatype effect =
    Create gl_object "handle option"
  | ShaderSource handle string
  | CompileShader handle
  | AttachShader handle handle
  | TransformFeedbackVaryings handle "string list"
  | LinkProgram handle
  | UseProgram handle
  | BindBuffer buffer_target "handle option"
  | BufferData buffer_target typed_array
  | BindFramebuffer "handle option"
  | BindRenderbuffer "handle option"
  | BindTexture "handle option"
  | RenderbufferStorage number number
  | TexImage2D number number
  | DeleteFramebuffer handle
  | DeleteRenderbuffer handle
  | DeleteTexture handle
  | EnableVertexAttribArray int
  | VertexAttribPointer int number
  | Uniform string "handle option" "bool option" uniform_value
  | Viewport number number
  | Clear
  | ClearColor number number number number
  | ClearDepth number
  | EnableDepthTest
  | DrawArrays number
  | Alert
  | ConsoleWarn string

text \<open>
  The context: what the driver answers (the first seven fields, which the code cannot
  change), and the state the commands act on. \<open>framebuffers\<close>, \<open>renderbuffers\<close> and
  \<open>textures\<close> hold the objects for which \<open>isFramebuffer\<close>, \<open>isRenderbuffer\<close> and
  \<open>isTexture\<close> answer true, the latter two with the size of their storage.
\<close>

record gl_context =
  isWebGL2 :: bool
  creatable :: "gl_object \<Rightarrow> bool"
  COMPILE_STATUS :: "string \<Rightarrow> shader_type \<Rightarrow> bool"
  LINK_STATUS :: "handle \<Rightarrow> handle \<Rightarrow> bool"
  getAttribLocation :: "handle \<Rightarrow> string \<Rightarrow> int"
  getUniformLocation :: "handle \<Rightarrow> string \<Rightarrow> handle option"
  hasMethod :: "string \<Rightarrow> bool"
  fresh :: handle
  framebuffers :: "handle set"
  renderbuffers :: "handle \<rightharpoonup> number \<times> number"
  textures :: "handle \<rightharpoonup> number \<times> number"
  boundFramebuffer :: "handle option"
  boundRenderbuffer :: "handle option"
  boundTexture :: "handle option"
  trace :: "effect list"

definition emit :: "effect list \<Rightarrow> gl_context \<Rightarrow> gl_context" where
  "emit es g = g\<lparr>trace := trace g @ es\<rparr>"

text \<open>\<open>gl.createShader\<close>, \<open>gl.createBuffer\<close>, ...: a new object, or \<open>null\<close>.\<close>

definition gl_create :: "gl_object \<Rightarrow> gl_context \<Rightarrow> handle option \<times> gl_context" where
  "gl_create k g =
     (if creatable g k
      then (Some (fresh g), emit [Create k (Some (fresh g))] (g\<lparr>fresh := Suc (fresh g)\<rparr>))
      else (None, emit [Create k None] g))"

section \<open>WebGLUtility: buffers\<close>

datatype extension = Extension

record WebGLExtensions =
  elementIndexUint :: "extension option"
  textureFloat :: "extension option"
  textureHalfFloat :: "extension option"

text \<open>\<open>WebGLUtility.createVbo\<close>: the buffer, or \<open>null\<close> when the context creates none.\<close>

definition createVbo :: "gl_context \<Rightarrow> number list \<Rightarrow> handle option \<times> gl_context" where
  "createVbo g data =
     (case gl_create Buffer g of
        (None, gl1) \<Rightarrow> (None, gl1)
      | (Some vbo, gl1) \<Rightarrow>
          (Some vbo,
           emit [BindBuffer ARRAY_BUFFER (Some vbo),
                 BufferData ARRAY_BUFFER (Float32Array data),
                 BindBuffer ARRAY_BUFFER None] gl1))"

text \<open>
  \<open>WebGLUtility.createIboInt\<close>: throws when \<open>ext\<close> is \<open>null\<close> or has no
  \<open>elementIndexUint\<close>, and when the context creates no buffer.
\<close>

definition createIboInt ::
  "gl_context \<Rightarrow> WebGLExtensions option \<Rightarrow> number list \<Rightarrow> (js_error + handle) \<times> gl_context" where
  "createIboInt g ext data =
     (if ext = None \<or> elementIndexUint (the ext) = None
      then (Inl (Error ''element index Uint not supported''), g)
      else
        (case gl_create Buffer g of
           (None, gl1) \<Rightarrow> (Inl (Error ''Failed to create buffer''), gl1)
         | (Some ibo, gl1) \<Rightarrow>
             (Inr ibo,
              emit [BindBuffer ELEMENT_ARRAY_BUFFER (Some ibo),
                    BufferData ELEMENT_ARRAY_BUFFER (Uint32Array data),
                    BindBuffer ELEMENT_ARRAY_BUFFER None] gl1)))"

section \<open>WebGLUtility: shaders and programs\<close>

text \<open>
  \<open>WebGLUtility.createShader\<close>: \<open>null\<close> when the context creates no shader or the
  source does not compile; the compiler's log is then shown with \<open>alert\<close>.
\<close>

definition createShader ::
  "gl_context \<Rightarrow> string \<Rightarrow> shader_type \<Rightarrow> handle option \<times> gl_context" where
  "createShader g source ty =
     (case gl_create (Shader ty) g of
        (None, gl1) \<Rightarrow> (None, gl1)
      | (Some shader, gl1) \<Rightarrow>
          (let gl2 = emit [ShaderSource shader source, CompileShader shader] gl1
           in if COMPILE_STATUS gl2 source ty
              then (Some shader, gl2)
              else (None, emit [Alert] gl2)))"

text \<open>\<open>WebGLUtility.createProgram\<close>: on success the program is left in use.\<close>

definition createProgram ::
  "gl_context \<Rightarrow> handle \<Rightarrow> handle \<Rightarrow> handle option \<times> gl_context" where
  "createProgram g vs fs =
     (case gl_create Program g of
        (None, gl1) \<Rightarrow> (None, gl1)
      | (Some prg, gl1) \<Rightarrow>
          (let gl2 = emit [AttachShader prg vs, AttachShader prg fs, LinkProgram prg] gl1
           in if LINK_STATUS gl2 vs fs
              then (Some prg, emit [UseProgram prg] gl2)
              else (None, emit [Alert] gl2)))"

definition createTransformFeedbackProgram ::
  "gl_context \<Rightarrow> handle \<Rightarrow> handle \<Rightarrow> string list \<Rightarrow> handle option \<times> gl_context" where
  "createTransformFeedbackProgram g vs fs varyings =
     (case gl_create Program g of
        (None, gl1) \<Rightarrow> (None, gl1)
      | (Some prg, gl1) \<Rightarrow>
          (let gl2 = emit [AttachShader prg vs, AttachShader prg fs,
                           TransformFeedbackVaryings prg varyings, LinkProgram prg] gl1
           in if LINK_STATUS gl2 vs fs
              then (Some prg, emit [UseProgram prg] gl2)
              else (None, emit [Alert] gl2)))"

section \<open>ShaderProgram\<close>

text \<open>
  The options of the constructor. \<open>attribute\<close> and \<open>stride\<close> are arrays by their
  TypeScript type; \<open>uniform\<close>, \<open>type\<close> and \<open>transformFeedbackVaryings\<close> are optional,
  \<open>None\<close> standing for a property that is left out.
\<close>

record ShaderProgramOptions =
  vertexShaderSource :: string
  fragmentShaderSource :: string
  attribute :: "string list"
  stride :: "number list"
  uniform :: "string list option"
  type :: "string list option"
  transformFeedbackVaryings :: "string list option"

text \<open>
  The object keeps every option and adds what it built. Its \<open>gl\<close> field is a reference
  to the context, which the model passes to each method instead.
\<close>

record ShaderProgram = ShaderProgramOptions +
  vertexShader :: handle
  fragmentShader :: handle
  program :: handle
  attributeLocation :: "int list"
  uniformLocation :: "handle option list option"

definition Array_isArray :: "'a list option \<Rightarrow> bool" where
  "Array_isArray a = (a \<noteq> None)"

text \<open>
  The constructor (\<open>webgl.ts\<close>, 551--640). The two pairing checks come first; then both
  shaders are created, then the program, then the locations are looked up, with a
  \<open>console.warn\<close> naming each variable the program does not know.
\<close>

definition ShaderProgram_constructor ::
  "gl_context \<Rightarrow> ShaderProgramOptions \<Rightarrow> (js_error + ShaderProgram) \<times> gl_context" where
  "ShaderProgram_constructor g option =
     (if length (attribute option) \<noteq> length (stride option)
      then (Inl (Error ''attribute or stride does not match''), g)
      else if (Array_isArray (uniform option) \<or> Array_isArray (type option)) \<and>
              (\<not> Array_isArray (uniform option) \<or> \<not> Array_isArray (type option) \<or>
               length (the (uniform option)) \<noteq> length (the (type option)))
      then (Inl (Error ''uniform or type does not match''), g)
      else
        (case createShader g (vertexShaderSource option) VERTEX_SHADER of
           (vertex, gl1) \<Rightarrow>
        (case createShader gl1 (fragmentShaderSource option) FRAGMENT_SHADER of
           (fragment, gl2) \<Rightarrow>
        (case (vertex, fragment) of
           (Some vs, Some fs) \<Rightarrow>
             (case (if isWebGL2 gl2 \<and> Array_isArray (transformFeedbackVaryings option) \<and>
                       length (the (transformFeedbackVaryings option)) > 0
                    then createTransformFeedbackProgram gl2 vs fs
                           (the (transformFeedbackVaryings option))
                    else createProgram gl2 vs fs) of
                (None, gl3) \<Rightarrow> (Inl (Error ''shader program creation failed''), gl3)
              | (Some prg, gl3) \<Rightarrow>
                  (let gl4 = emit (map ConsoleWarn
                               (filter (\<lambda>n. getAttribLocation gl3 prg n < 0) (attribute option))) gl3;
                       gl5 = (case uniform option of
                                None \<Rightarrow> gl4
                              | Some us \<Rightarrow>
                                  emit (map ConsoleWarn
                                    (filter (\<lambda>n. getUniformLocation gl4 prg n = None) us)) gl4)
                   in (Inr \<lparr> vertexShaderSource = vertexShaderSource option,
                              fragmentShaderSource = fragmentShaderSource option,
                              attribute = attribute option,
                              stride = stride option,
                              uniform = uniform option,
                              type = type option,
                              transformFeedbackVaryings = transformFeedbackVaryings option,
                              vertexShader = vs,
                              fragmentShader = fs,
                              program = prg,
                              attributeLocation = map (getAttribLocation gl3 prg) (attribute option),
                              uniformLocation =
                                map_option (map (getUniformLocation gl4 prg)) (uniform option) \<rparr>,
                       gl5)))
         | _ \<Rightarrow> (Inl (Error ''shader compilation failed''), gl2)))))"

text \<open>\<open>use\<close>.\<close>

definition use :: "ShaderProgram \<Rightarrow> gl_context \<Rightarrow> gl_context" where
  "use p g = emit [UseProgram (program p)] g"

text \<open>
  An element of the array given to \<open>setAttribute\<close>: a buffer, or the empty array that
  \<open>Output.init\<close> puts in the place of a buffer that could not be created.
\<close>

datatype vbo_entry = VBO handle | EmptyArray

text \<open>Reading an array at an index: \<open>None\<close> is JavaScript's \<open>undefined\<close>.\<close>

definition js_index :: "'a list \<Rightarrow> nat \<Rightarrow> 'a option" where
  "js_index xs i = (if i < length xs then Some (xs ! i) else None)"

text \<open>
  \<open>setAttribute\<close>. The loop is \<open>vbo.forEach((v, index) => ...)\<close>. \<open>gl.bindBuffer\<close> takes a
  buffer or \<open>null\<close>: the browser's binding throws a TypeError for any other value, which
  is what the empty array is. An index past the end of \<open>attributeLocation\<close> or \<open>stride\<close>
  reads \<open>undefined\<close>, which the binding converts to 0.
\<close>

fun setAttribute_forEach ::
  "ShaderProgram \<Rightarrow> nat \<Rightarrow> vbo_entry list \<Rightarrow> gl_context \<Rightarrow> js_error option \<times> gl_context" where
  "setAttribute_forEach p index [] g = (None, g)"
| "setAttribute_forEach p index (v # vs) g =
     (case v of
        EmptyArray \<Rightarrow> (Some (TypeError ''bindBuffer: parameter 2 is not of type WebGLBuffer''), g)
      | VBO b \<Rightarrow>
          setAttribute_forEach p (Suc index) vs
            (emit [BindBuffer ARRAY_BUFFER (Some b),
                   EnableVertexAttribArray (case js_index (attributeLocation p) index of
                                              None \<Rightarrow> 0 | Some l \<Rightarrow> l),
                   VertexAttribPointer (case js_index (attributeLocation p) index of
                                          None \<Rightarrow> 0 | Some l \<Rightarrow> l)
                                       (case js_index (stride p) index of
                                          None \<Rightarrow> 0 | Some n \<Rightarrow> n)] g))"

definition setAttribute ::
  "ShaderProgram \<Rightarrow> vbo_entry list \<Rightarrow> handle option \<Rightarrow> gl_context \<Rightarrow> js_error option \<times> gl_context" where
  "setAttribute p vbo ibo g =
     (if length vbo \<noteq> length (attribute p)
      then (Some (Error ''vbo or attribute does not match''), g)
      else
        (case setAttribute_forEach p 0 vbo g of
           (Some e, gl1) \<Rightarrow> (Some e, gl1)
         | (None, gl1) \<Rightarrow>
             (None, case ibo of None \<Rightarrow> gl1
                    | Some i \<Rightarrow> emit [BindBuffer ELEMENT_ARRAY_BUFFER (Some i)] gl1)))"

text \<open>\<open>String.prototype.includes\<close>.\<close>

fun startsWith :: "string \<Rightarrow> string \<Rightarrow> bool" where
  "startsWith s [] = True"
| "startsWith [] (c # cs) = False"
| "startsWith (x # xs) (c # cs) = (x = c \<and> startsWith xs cs)"

fun str_includes :: "string \<Rightarrow> string \<Rightarrow> bool" where
  "str_includes [] pat = startsWith [] pat"
| "str_includes (x # xs) pat = (startsWith (x # xs) pat \<or> str_includes xs pat)"

text \<open>
  \<open>setUniform\<close>. The loop is \<open>value.forEach((v, index) => ...)\<close>; \<open>gl[type]\<close> is called
  with the location, then \<open>false\<close> when the tag contains \<open>Matrix\<close>, then the value.
  Reading \<open>includes\<close> of an undefined tag, indexing a \<open>null\<close> location array, and calling
  a \<open>gl[type]\<close> that is no method of the context are TypeErrors. \<open>value\<close> is an array
  by its TypeScript type, as \<open>vbo\<close> is in \<open>setAttribute\<close>.
\<close>

definition dispatch :: "string \<times> handle option \<times> uniform_value \<Rightarrow> effect" where
  "dispatch = (\<lambda>(ty, loc, v).
     Uniform ty loc (if str_includes ty ''Matrix'' then Some False else None) v)"

fun setUniform_forEach ::
  "ShaderProgram \<Rightarrow> nat \<Rightarrow> uniform_value list \<Rightarrow> gl_context \<Rightarrow> js_error option \<times> gl_context" where
  "setUniform_forEach p index [] g = (None, g)"
| "setUniform_forEach p index (v # vs) g =
     (case Option.bind (type p) (\<lambda>ts. js_index ts index) of
        None \<Rightarrow> (Some (TypeError ''Cannot read properties of undefined (reading includes)''), g)
      | Some ty \<Rightarrow>
          (case uniformLocation p of
             None \<Rightarrow> (Some (TypeError ''Cannot read properties of null''), g)
           | Some ls \<Rightarrow>
               if \<not> hasMethod g ty
               then (Some (TypeError ''gl[type] is not a function''), g)
               else setUniform_forEach p (Suc index) vs
                      (emit [dispatch (ty, Option.bind (js_index ls index) id, v)] g)))"

definition setUniform ::
  "ShaderProgram \<Rightarrow> uniform_value list \<Rightarrow> gl_context \<Rightarrow> js_error option \<times> gl_context" where
  "setUniform p val g =
     (case uniform p of
        None \<Rightarrow> (None, g)
      | Some us \<Rightarrow>
          if length val \<noteq> length us
          then (Some (Error ''value is an invalid''), g)
          else setUniform_forEach p 0 val g)"

section \<open>WebGLUtility: render targets\<close>

text \<open>
  What \<open>createFramebuffer\<close> and its variants return, and what \<open>resizeFramebuffer\<close> and
  \<open>deleteFramebuffer\<close> take.
\<close>

record RenderTarget =
  framebuffer :: "handle slot"
  renderbuffer :: "handle slot"
  texture :: "handle slot"

definition hasOwnProperty :: "'a slot \<Rightarrow> bool" where
  "hasOwnProperty s = (s \<noteq> Missing)"

definition isFramebuffer :: "gl_context \<Rightarrow> handle slot \<Rightarrow> bool" where
  "isFramebuffer g s = (case s of Handle h \<Rightarrow> h \<in> framebuffers g | _ \<Rightarrow> False)"

definition isRenderbuffer :: "gl_context \<Rightarrow> handle slot \<Rightarrow> bool" where
  "isRenderbuffer g s = (case s of Handle h \<Rightarrow> renderbuffers g h \<noteq> None | _ \<Rightarrow> False)"

definition isTexture :: "gl_context \<Rightarrow> handle slot \<Rightarrow> bool" where
  "isTexture g s = (case s of Handle h \<Rightarrow> textures g h \<noteq> None | _ \<Rightarrow> False)"

text \<open>Binding: \<open>null\<close> and \<open>undefined\<close> unbind.\<close>

definition slot_handle :: "handle slot \<Rightarrow> handle option" where
  "slot_handle s = (case s of Handle h \<Rightarrow> Some h | _ \<Rightarrow> None)"

definition bindFramebuffer :: "handle slot \<Rightarrow> gl_context \<Rightarrow> gl_context" where
  "bindFramebuffer s g = emit [BindFramebuffer (slot_handle s)] (g\<lparr>boundFramebuffer := slot_handle s\<rparr>)"

definition bindRenderbuffer :: "handle slot \<Rightarrow> gl_context \<Rightarrow> gl_context" where
  "bindRenderbuffer s g = emit [BindRenderbuffer (slot_handle s)] (g\<lparr>boundRenderbuffer := slot_handle s\<rparr>)"

definition bindTexture :: "handle slot \<Rightarrow> gl_context \<Rightarrow> gl_context" where
  "bindTexture s g = emit [BindTexture (slot_handle s)] (g\<lparr>boundTexture := slot_handle s\<rparr>)"

text \<open>Storage is given to the object that is bound; with none bound the command has no effect.\<close>

definition renderbufferStorage :: "number \<Rightarrow> number \<Rightarrow> gl_context \<Rightarrow> gl_context" where
  "renderbufferStorage w h g =
     emit [RenderbufferStorage w h]
       (case boundRenderbuffer g of
          None \<Rightarrow> g
        | Some r \<Rightarrow> if renderbuffers g r = None then g
                    else g\<lparr>renderbuffers := (renderbuffers g)(r \<mapsto> (w, h))\<rparr>)"

definition texImage2D :: "number \<Rightarrow> number \<Rightarrow> gl_context \<Rightarrow> gl_context" where
  "texImage2D w h g =
     emit [TexImage2D w h]
       (case boundTexture g of
          None \<Rightarrow> g
        | Some t \<Rightarrow> if textures g t = None then g
                    else g\<lparr>textures := (textures g)(t \<mapsto> (w, h))\<rparr>)"

text \<open>Deleting: the object is gone, and unbound if it was bound.\<close>

definition gl_deleteFramebuffer :: "handle slot \<Rightarrow> gl_context \<Rightarrow> gl_context" where
  "gl_deleteFramebuffer s g =
     (case s of
        Handle h \<Rightarrow>
          emit [DeleteFramebuffer h]
            (g\<lparr>framebuffers := framebuffers g - {h},
               boundFramebuffer := (if boundFramebuffer g = Some h then None else boundFramebuffer g)\<rparr>)
      | _ \<Rightarrow> g)"

definition gl_deleteRenderbuffer :: "handle slot \<Rightarrow> gl_context \<Rightarrow> gl_context" where
  "gl_deleteRenderbuffer s g =
     (case s of
        Handle h \<Rightarrow>
          emit [DeleteRenderbuffer h]
            (g\<lparr>renderbuffers := (renderbuffers g)(h := None),
               boundRenderbuffer := (if boundRenderbuffer g = Some h then None else boundRenderbuffer g)\<rparr>)
      | _ \<Rightarrow> g)"

definition gl_deleteTexture :: "handle slot \<Rightarrow> gl_context \<Rightarrow> gl_context" where
  "gl_deleteTexture s g =
     (case s of
        Handle h \<Rightarrow>
          emit [DeleteTexture h]
            (g\<lparr>textures := (textures g)(h := None),
               boundTexture := (if boundTexture g = Some h then None else boundTexture g)\<rparr>)
      | _ \<Rightarrow> g)"

text \<open>
  \<open>WebGLUtility.resizeFramebuffer\<close> (\<open>webgl.ts\<close>, 410--445). The method is static, so
  \<open>this\<close> is the class \<open>WebGLUtility\<close>, and \<open>this.buffers\<close> is its static property
  \<open>buffers\<close>: the argument \<open>buffers\<close> of the model, \<open>None\<close> when the property is
  undefined. Nothing in the repository defines it. Reading \<open>.renderbuffer\<close> or
  \<open>.texture\<close> of \<open>undefined\<close> is a TypeError. The tests are made on \<open>obj\<close>; what is
  bound is \<open>this.buffers.renderbuffer\<close> and \<open>this.buffers.texture\<close>.
\<close>

definition resizeFramebuffer ::
  "gl_context \<Rightarrow> RenderTarget option \<Rightarrow> RenderTarget option \<Rightarrow> number \<Rightarrow> number
     \<Rightarrow> js_error option \<times> gl_context" where
  "resizeFramebuffer g buffers obj w h =
     (case obj of
        None \<Rightarrow> (None, g)
      | Some ob \<Rightarrow>
          (case (if hasOwnProperty (renderbuffer ob) \<and> isRenderbuffer g (renderbuffer ob)
                 then (case buffers of
                         None \<Rightarrow> (Some (TypeError ''Cannot read properties of undefined (reading renderbuffer)''), g)
                       | Some bs \<Rightarrow> (None, renderbufferStorage w h (bindRenderbuffer (renderbuffer bs) g)))
                 else (None, g)) of
             (Some e, g1) \<Rightarrow> (Some e, g1)
           | (None, g1) \<Rightarrow>
               (if hasOwnProperty (texture ob) \<and> isTexture g1 (texture ob)
                then (case buffers of
                        None \<Rightarrow> (Some (TypeError ''Cannot read properties of undefined (reading texture)''), g1)
                      | Some bs \<Rightarrow> (None, texImage2D w h (bindTexture (texture bs) g1)))
                else (None, g1))))"

text \<open>
  \<open>WebGLUtility.deleteFramebuffer\<close> (\<open>webgl.ts\<close>, 452--489). The object is changed in
  place, so the model returns it. The last statement, \<open>obj = null\<close>, changes the
  parameter only: the caller's object stays.
\<close>

definition deleteFramebuffer ::
  "gl_context \<Rightarrow> RenderTarget option \<Rightarrow> RenderTarget option \<times> gl_context" where
  "deleteFramebuffer g obj =
     (case obj of
        None \<Rightarrow> (None, g)
      | Some ob \<Rightarrow>
          (let (ob1, g1) =
                 (if hasOwnProperty (framebuffer ob) \<and> isFramebuffer g (framebuffer ob)
                  then (ob\<lparr>framebuffer := Null\<rparr>,
                        gl_deleteFramebuffer (framebuffer ob) (bindFramebuffer Null g))
                  else (ob, g));
               (ob2, g2) =
                 (if hasOwnProperty (renderbuffer ob1) \<and> isRenderbuffer g1 (renderbuffer ob1)
                  then (ob1\<lparr>renderbuffer := Null\<rparr>,
                        gl_deleteRenderbuffer (renderbuffer ob1) (bindRenderbuffer Null g1))
                  else (ob1, g1));
               (ob3, g3) =
                 (if hasOwnProperty (texture ob2) \<and> isTexture g2 (texture ob2)
                  then (ob2\<lparr>texture := Null\<rparr>,
                        gl_deleteTexture (texture ob2) (bindTexture Null g2))
                  else (ob2, g2))
           in (Some ob3, g3)))"

section \<open>The page\<close>

text \<open>
  \<open>Common\<close> and \<open>Pointer\<close> are module-level singletons, and \<open>index.ts\<close> creates one
  \<open>WebGLApp\<close> with its one \<open>Output\<close>: the state of the program is one record of them,
  together with what the browser's \<open>window\<close> keeps for the program (the field
  \<open>app_output\<close> is \<open>WebGLApp.output\<close>). The calls made to
  the window are recorded in order.
\<close>

datatype host_call =
    RequestAnimationFrame
  | DateNow
  | SetTimeout nat
  | ClearTimeout nat
  | ConsoleError string
  | FpsBegin
  | FpsEnd

record Window =
  innerWidth :: nat
  innerHeight :: nat
  animationFrames :: nat
  timeouts :: "nat list"
  nextTimeout :: nat
  calls :: "host_call list"

record HTMLCanvasElement =
  width :: nat
  height :: nat

record Common =
  canvas :: "HTMLCanvasElement option"
  gl :: "gl_context option"
  running :: bool
  previousTime :: number
  currentTime :: number
  time :: number
  timeScale :: number
  devicePixelRatio :: number

text \<open>\<open>PointerCoords\<close>: the pair \<open>(x, y)\<close>.\<close>

type_synonym PointerCoords = "number \<times> number"

record Pointer =
  pointerMoved :: bool
  coords :: PointerCoords
  prevCoords :: PointerCoords
  diff :: PointerCoords
  timer :: "nat option"

text \<open>
  \<open>Geometry\<close>; its \<open>attribute\<close> and \<open>stride\<close> are named apart from the fields of
  \<open>ShaderProgramOptions\<close>.
\<close>

record Geometry =
  position :: "number list"
  vbo :: "vbo_entry list"
  geometry_attribute :: "string list"
  geometry_stride :: "number list"

text \<open>\<open>Gui\<close>: whether the frame-rate graph was created.\<close>

record Gui =
  fps :: bool

record Output =
  plane :: "Geometry option"
  shaderProgram :: "ShaderProgram option"
  gui :: Gui

record Page =
  common :: Common
  pointer :: Pointer
  app_output :: Output
  window :: Window

definition call :: "host_call list \<Rightarrow> Window \<Rightarrow> Window" where
  "call cs win = win\<lparr>calls := calls win @ cs\<rparr>"

definition requestAnimationFrame :: "Window \<Rightarrow> Window" where
  "requestAnimationFrame win =
     call [RequestAnimationFrame] (win\<lparr>animationFrames := Suc (animationFrames win)\<rparr>)"

definition clearTimeout :: "nat \<Rightarrow> Window \<Rightarrow> Window" where
  "clearTimeout t win = call [ClearTimeout t] (win\<lparr>timeouts := removeAll t (timeouts win)\<rparr>)"

definition setTimeout :: "Window \<Rightarrow> nat \<times> Window" where
  "setTimeout win =
     (nextTimeout win,
      call [SetTimeout (nextTimeout win)]
        (win\<lparr>timeouts := timeouts win @ [nextTimeout win],
             nextTimeout := Suc (nextTimeout win)\<rparr>))"

section \<open>Common\<close>

definition Common_constructor :: "number \<Rightarrow> Common" where
  "Common_constructor dpr =
     \<lparr> canvas = None, gl = None, running = False, previousTime = 0, currentTime = 0,
       time = 0, timeScale = 1, devicePixelRatio = dpr \<rparr>"

text \<open>\<open>setup\<close>; \<open>now\<close> is what \<open>Date.now()\<close> returns.\<close>

definition Common_setup :: "number \<Rightarrow> Common \<Rightarrow> Common" where
  "Common_setup now c =
     (case gl c of
        None \<Rightarrow> c
      | Some g \<Rightarrow>
          c\<lparr>previousTime := now,
            gl := Some (emit [ClearColor 0 0 0 0, ClearDepth 1, EnableDepthTest] g)\<rparr>)"

definition createPlaneAttribute :: "number \<Rightarrow> number \<Rightarrow> number list \<times> number list" where
  "createPlaneAttribute w h =
     (let x = w * 0.5; y = h * 0.5
      in ([- x, y, 0,  x, y, 0,  - x, - y, 0,  x, - y, 0],
          [0, 1,  1, 1,  0, 0,  1, 0]))"

definition Common_resize :: "Window \<Rightarrow> Common \<Rightarrow> Common" where
  "Common_resize win c =
     (case canvas c of
        None \<Rightarrow> c
      | Some cv \<Rightarrow> c\<lparr>canvas := Some (cv\<lparr>width := innerWidth win, height := innerHeight win\<rparr>)\<rparr>)"

text \<open>
  \<open>update\<close> (\<open>Common\<close>, 116--122); \<open>now\<close> is what \<open>Date.now()\<close> returns. Each of
  \<open>-\<close>, \<open>/\<close>, \<open>+\<close> and \<open>*\<close> is the operation on doubles.
\<close>

definition Common_update :: "number \<Rightarrow> Common \<Rightarrow> Common" where
  "Common_update now c =
     (let deltaTime = fdiv (fsub now (previousTime c)) 1000
      in c\<lparr>currentTime := fadd (currentTime c) deltaTime,
           time := fadd (time c) (fmul deltaTime (timeScale c)),
           previousTime := now\<rparr>)"



section \<open>Pointer\<close>

definition Pointer_constructor :: Pointer where
  "Pointer_constructor =
     \<lparr> pointerMoved = False, coords = (0, 0), prevCoords = (0, 0), diff = (0, 0), timer = None \<rparr>"

text \<open>
  \<open>setCoords\<close> (\<open>Pointer\<close>, 293--311). \<open>if (this.timer)\<close> holds for a timer id other
  than 0.
\<close>

definition setCoords :: "number \<Rightarrow> number \<Rightarrow> Page \<Rightarrow> Page" where
  "setCoords px py pg =
     (case canvas (common pg) of
        None \<Rightarrow> pg
      | Some cv \<Rightarrow>
          (let win1 = (case timer (pointer pg) of
                         None \<Rightarrow> window pg
                       | Some t \<Rightarrow> if t = 0 then window pg else clearTimeout t (window pg));
               coordsX = (px / real (width cv)) * 2 - 1;
               coordsY = - (py / real (height cv)) * 2 + 1;
               (t, win2) = setTimeout win1
           in pg\<lparr>pointer := (pointer pg)\<lparr>coords := (coordsX, coordsY),
                                          pointerMoved := True,
                                          timer := Some t\<rparr>,
                 window := win2\<rparr>))"

text \<open>The callback given to \<open>setTimeout\<close>, run by the browser when timeout \<open>t\<close> expires.\<close>

definition timeout_expires :: "nat \<Rightarrow> Page \<Rightarrow> Page" where
  "timeout_expires t pg =
     (if t \<in> set (timeouts (window pg))
      then pg\<lparr>pointer := (pointer pg)\<lparr>pointerMoved := False\<rparr>,
              window := (window pg)\<lparr>timeouts := removeAll t (timeouts (window pg))\<rparr>\<rparr>
      else pg)"

definition Pointer_update :: "Pointer \<Rightarrow> Pointer" where
  "Pointer_update p =
     p\<lparr>diff := (fst (coords p) - fst (prevCoords p), snd (coords p) - snd (prevCoords p)),
       prevCoords := coords p\<rparr>"

section \<open>Output\<close>

text \<open>
  \<open>load\<close>. The two shader sources are files that are not part of the sources at hand:
  they are parameters.
\<close>

definition Output_load :: "string \<Rightarrow> string \<Rightarrow> Page \<Rightarrow> js_error option \<times> Page" where
  "Output_load base_vert output_frag pg =
     (case (gl (common pg), plane (app_output pg)) of
        (Some g, Some pl) \<Rightarrow>
          (case ShaderProgram_constructor g
                  \<lparr> vertexShaderSource = base_vert,
                    fragmentShaderSource = output_frag,
                    attribute = geometry_attribute pl,
                    stride = geometry_stride pl,
                    uniform = Some [''uTime'', ''uResolution'', ''uPointer''],
                    type = Some [''uniform1f'', ''uniform2fv'', ''uniform2fv''],
                    transformFeedbackVaryings = None \<rparr> of
             (Inl e, g1) \<Rightarrow> (Some e, pg\<lparr>common := (common pg)\<lparr>gl := Some g1\<rparr>\<rparr>)
           | (Inr sp, g1) \<Rightarrow>
               (None, pg\<lparr>common := (common pg)\<lparr>gl := Some g1\<rparr>,
                         app_output := (app_output pg)\<lparr>shaderProgram := Some sp\<rparr>\<rparr>))
      | _ \<Rightarrow> (None, pg))"

text \<open>
  \<open>init\<close> (\<open>Output\<close>, 40--55). \<open>createVbo(...) ?? []\<close> puts the empty array where
  \<open>createVbo\<close> returned \<open>null\<close>.
\<close>

definition Output_init :: "string \<Rightarrow> string \<Rightarrow> Page \<Rightarrow> js_error option \<times> Page" where
  "Output_init base_vert output_frag pg =
     (case gl (common pg) of
        None \<Rightarrow> (None, pg)
      | Some g \<Rightarrow>
          (let planePosition = fst (createPlaneAttribute 2 2);
               (buf, g1) = createVbo g planePosition;
               planeVbo = [case buf of None \<Rightarrow> EmptyArray | Some b \<Rightarrow> VBO b]
           in Output_load base_vert output_frag
                (pg\<lparr>common := (common pg)\<lparr>gl := Some g1\<rparr>,
                    app_output := (app_output pg)\<lparr>plane := Some \<lparr> position = planePosition,
                                                          vbo = planeVbo,
                                                          geometry_attribute = [''position''],
                                                          geometry_stride = [3] \<rparr>\<rparr>\<rparr>)))"

text \<open>
  \<open>render\<close>. The body of its \<open>try\<close> block is \<open>render_try\<close>, which returns what was
  thrown, if anything; \<open>render\<close> catches it and reports it with \<open>console.error\<close>.
\<close>

definition render_try ::
  "gl_context \<Rightarrow> HTMLCanvasElement \<Rightarrow> ShaderProgram \<Rightarrow> Geometry \<Rightarrow> number \<Rightarrow> PointerCoords
     \<Rightarrow> js_error option \<times> gl_context" where
  "render_try g cv sp pl t xy =
     (let g1 = use sp (emit [Viewport (real (width cv)) (real (height cv)), Clear]
                         (bindFramebuffer Null g))
      in case setAttribute sp (vbo pl) None g1 of
           (Some e, g2) \<Rightarrow> (Some e, g2)
         | (None, g2) \<Rightarrow>
             (case setUniform sp
                     [Scalar t,
                      Floats [real (width cv), real (height cv)],
                      Floats [fst xy, snd xy]] g2 of
                (Some e, g3) \<Rightarrow> (Some e, g3)
              | (None, g3) \<Rightarrow>
                  (None, emit [DrawArrays (real (length (position pl)) / 3)] g3)))"

definition Output_render :: "Page \<Rightarrow> Page" where
  "Output_render pg =
     (case (gl (common pg), canvas (common pg), shaderProgram (app_output pg),
            plane (app_output pg)) of
        (Some g, Some cv, Some sp, Some pl) \<Rightarrow>
          (case render_try g cv sp pl (time (common pg)) (coords (pointer pg)) of
             (None, g1) \<Rightarrow> pg\<lparr>common := (common pg)\<lparr>gl := Some g1\<rparr>\<rparr>
           | (Some e, g1) \<Rightarrow>
               pg\<lparr>common := (common pg)\<lparr>gl := Some g1\<rparr>,
                  window := call [ConsoleError ''Error during render:''] (window pg)\<rparr>)
      | _ \<Rightarrow>
          pg\<lparr>window := call [ConsoleError
                 ''WebGL context, canvas, shader program or plane geometry is missing.'']
                 (window pg)\<rparr>)"

text \<open>\<open>Gui.update\<close> marks the frame on the graph, when there is one.\<close>

definition Gui_update :: "Page \<Rightarrow> Page" where
  "Gui_update pg =
     (if fps (gui (app_output pg)) then pg\<lparr>window := call [FpsBegin, FpsEnd] (window pg)\<rparr> else pg)"

definition Output_update :: "Page \<Rightarrow> Page" where
  "Output_update pg = Gui_update (Output_render pg)"

section \<open>WebGLApp\<close>

text \<open>\<open>setup\<close>; \<open>Common.setup\<close> reads the clock when there is a context.\<close>

definition WebGLApp_setup :: "number \<Rightarrow> Page \<Rightarrow> Page" where
  "WebGLApp_setup now pg =
     (let c1 = Common_setup now (common pg);
          win1 = (if gl (common pg) = None then window pg else call [DateNow] (window pg));
          c2 = Common_resize win1 c1
      in pg\<lparr>common := c2\<lparr>running := True\<rparr>, window := win1\<rparr>)"

text \<open>
  The work of one frame (\<open>WebGLApp.render\<close>, lines 49 and 50): \<open>Common.update()\<close>,
  which begins by reading \<open>Date.now()\<close>, then \<open>this.output.update()\<close>.
\<close>

definition frame_work :: "number \<Rightarrow> Page \<Rightarrow> Page" where
  "frame_work now pg =
     Output_update (pg\<lparr>common := Common_update now (common pg),
                       window := call [DateNow] (window pg)\<rparr>)"

text \<open>\<open>render\<close> (\<open>WebGLApp\<close>, 44--51).\<close>

definition WebGLApp_render :: "number \<Rightarrow> Page \<Rightarrow> Page" where
  "WebGLApp_render now pg =
     frame_work now
       (if running (common pg) = True
        then pg\<lparr>window := requestAnimationFrame (window pg)\<rparr>
        else pg)"

text \<open>
  The browser at a display refresh: it runs one callback scheduled with
  \<open>requestAnimationFrame\<close>, if there is one. Every such callback is \<open>render\<close>.
\<close>

definition animation_frame :: "number \<Rightarrow> Page \<Rightarrow> Page" where
  "animation_frame now pg =
     (if animationFrames (window pg) = 0 then pg
      else WebGLApp_render now
             (pg\<lparr>window := (window pg)\<lparr>animationFrames := animationFrames (window pg) - 1\<rparr>\<rparr>))"

text \<open>A write to \<open>Common.running\<close> from outside the loop.\<close>

definition set_running :: "bool \<Rightarrow> Page \<Rightarrow> Page" where
  "set_running b pg = pg\<lparr>common := (common pg)\<lparr>running := b\<rparr>\<rparr>"

section \<open>What the claims speak of\<close>

text \<open>
  The pairing the constructor asks of its options, in the words of the specification:
  as many strides as attribute names, and uniform names and update tags either both
  absent or of equal number.
\<close>

definition descriptors_paired :: "ShaderProgramOptions \<Rightarrow> bool" where
  "descriptors_paired option =
     (length (attribute option) = length (stride option) \<and>
      (case (uniform option, type option) of
         (None, None) \<Rightarrow> True
       | (Some us, Some ts) \<Rightarrow> length us = length ts
       | _ \<Rightarrow> False))"

text \<open>
  Both shaders compile and the program links: the context creates the three objects,
  reports a good compile status for each source, and a good link status for the two
  shaders, which get the next two handles.
\<close>

definition compiles_and_links :: "gl_context \<Rightarrow> ShaderProgramOptions \<Rightarrow> bool" where
  "compiles_and_links g option =
     (creatable g (Shader VERTEX_SHADER) \<and> creatable g (Shader FRAGMENT_SHADER) \<and>
      creatable g Program \<and>
      COMPILE_STATUS g (vertexShaderSource option) VERTEX_SHADER \<and>
      COMPILE_STATUS g (fragmentShaderSource option) FRAGMENT_SHADER \<and>
      LINK_STATUS g (fresh g) (Suc (fresh g)))"

text \<open>
  What one call of \<open>deleteFramebuffer\<close> sends for one field: the unbinding, then the
  deletion, when the field holds an object the context knows; nothing otherwise.
\<close>

definition unbind_then_delete ::
  "effect \<Rightarrow> (handle \<Rightarrow> effect) \<Rightarrow> bool \<Rightarrow> handle slot \<Rightarrow> effect list" where
  "unbind_then_delete unbind delete live s =
     (case s of Handle h \<Rightarrow> if live then [unbind, delete h] else [] | _ \<Rightarrow> [])"

text \<open>No field of the bundle names an object the context knows.\<close>

definition released :: "gl_context \<Rightarrow> RenderTarget \<Rightarrow> bool" where
  "released g ob =
     (\<not> isFramebuffer g (framebuffer ob) \<and> \<not> isRenderbuffer g (renderbuffer ob) \<and>
      \<not> isTexture g (texture ob))"

text \<open>
  Every field of the bundle that holds an object holds one the context knows, as in a
  bundle that \<open>createFramebuffer\<close> returned and that nothing else has deleted.
\<close>

definition intact :: "gl_context \<Rightarrow> RenderTarget \<Rightarrow> bool" where
  "intact g ob =
     ((framebuffer ob \<in> {Null, Missing} \<or> isFramebuffer g (framebuffer ob)) \<and>
      (renderbuffer ob \<in> {Null, Missing} \<or> isRenderbuffer g (renderbuffer ob)) \<and>
      (texture ob \<in> {Null, Missing} \<or> isTexture g (texture ob)))"

text \<open>Every field of the bundle is \<open>null\<close> or absent.\<close>

definition cleared :: "RenderTarget \<Rightarrow> bool" where
  "cleared ob =
     (framebuffer ob \<in> {Null, Missing} \<and> renderbuffer ob \<in> {Null, Missing} \<and>
      texture ob \<in> {Null, Missing})"

text \<open>
  What the browser does between the program's own steps: a display refresh, a pointer
  event at some pixel, the expiry of a timeout.
\<close>

datatype browser_event = Refresh number | PointerAt number number | Expire nat

fun browser :: "browser_event \<Rightarrow> Page \<Rightarrow> Page" where
  "browser (Refresh now) pg = animation_frame now pg"
| "browser (PointerAt px py) pg = setCoords px py pg"
| "browser (Expire t) pg = timeout_expires t pg"

text \<open>
  \<open>render\<close>, with \<open>Common.running\<close> set to \<open>false\<close> by something in the frame's work:
  after the test of line 45 and before the work of lines 49 and 50.
\<close>

definition stopped_during :: "number \<Rightarrow> Page \<Rightarrow> Page" where
  "stopped_during now pg =
     frame_work now
       (set_running False
          (if running (common pg) = True
           then pg\<lparr>window := requestAnimationFrame (window pg)\<rparr>
           else pg))"

text \<open>How many times \<open>requestAnimationFrame\<close> has been called.\<close>

definition scheduled :: "Page \<Rightarrow> nat" where
  "scheduled pg = length (filter (\<lambda>c. c = RequestAnimationFrame) (calls (window pg)))"

text \<open>
  The geometry \<open>Output.init\<close> records when no buffer could be created, the options
  \<open>Output.load\<close> then gives to the constructor, and the page as \<open>init\<close> hands it to
  \<open>load\<close>.
\<close>

definition placeholder_plane :: Geometry where
  "placeholder_plane =
     \<lparr> position = [- 1, 1, 0,  1, 1, 0,  - 1, - 1, 0,  1, - 1, 0],
       vbo = [EmptyArray],
       geometry_attribute = [''position''],
       geometry_stride = [3] \<rparr>"

definition load_options :: "string \<Rightarrow> string \<Rightarrow> ShaderProgramOptions" where
  "load_options base_vert output_frag =
     \<lparr> vertexShaderSource = base_vert,
       fragmentShaderSource = output_frag,
       attribute = [''position''],
       stride = [3],
       uniform = Some [''uTime'', ''uResolution'', ''uPointer''],
       type = Some [''uniform1f'', ''uniform2fv'', ''uniform2fv''],
       transformFeedbackVaryings = None \<rparr>"

definition without_buffer :: "gl_context \<Rightarrow> Page \<Rightarrow> Page" where
  "without_buffer g pg =
     pg\<lparr>common := (common pg)\<lparr>gl := Some (emit [Create Buffer None] g)\<rparr>,
        app_output := (app_output pg)\<lparr>plane := Some placeholder_plane\<rparr>\<rparr>"

section \<open>Concrete instances\<close>

text \<open>A context in which everything works, and which knows the names \<open>Output\<close> uses.\<close>

definition gl0 :: gl_context where
  "gl0 = \<lparr> isWebGL2 = False,
           creatable = (\<lambda>_. True),
           COMPILE_STATUS = (\<lambda>_ _. True),
           LINK_STATUS = (\<lambda>_ _. True),
           getAttribLocation = (\<lambda>_ n. if n = ''position'' then 0 else - 1),
           getUniformLocation =
             (\<lambda>_ n. if n = ''uTime'' then Some 10
                    else if n = ''uResolution'' then Some 11
                    else if n = ''uPointer'' then Some 12 else None),
           hasMethod = (\<lambda>m. m \<in> set [''uniform1f'', ''uniform2fv'', ''uniformMatrix4fv'']),
           fresh = 1,
           framebuffers = {},
           renderbuffers = Map.empty,
           textures = Map.empty,
           boundFramebuffer = None,
           boundRenderbuffer = None,
           boundTexture = None,
           trace = [] \<rparr>"

text \<open>The options \<open>Output.load\<close> gives to the constructor, and two that are not paired.\<close>

definition output_options :: ShaderProgramOptions where
  "output_options =
     \<lparr> vertexShaderSource = ''void main() {}'',
       fragmentShaderSource = ''void main() {}'',
       attribute = [''position''],
       stride = [3],
       uniform = Some [''uTime'', ''uResolution'', ''uPointer''],
       type = Some [''uniform1f'', ''uniform2fv'', ''uniform2fv''],
       transformFeedbackVaryings = None \<rparr>"


text \<open>
  The page before \<open>init\<close>, and the page once \<open>init\<close> has found a canvas of 800 by 600
  and its context.
\<close>

definition fresh_page :: Page where
  "fresh_page =
     \<lparr> common = Common_constructor 2,
       pointer = Pointer_constructor,
       app_output = \<lparr> plane = None, shaderProgram = None, gui = \<lparr> fps = True \<rparr> \<rparr>,
       window = \<lparr> innerWidth = 800, innerHeight = 600, animationFrames = 0,
                  timeouts = [], nextTimeout = 1, calls = [] \<rparr> \<rparr>"

definition page0 :: Page where
  "page0 = fresh_page\<lparr>common := (Common_constructor 2)
              \<lparr>canvas := Some \<lparr> width = 800, height = 600 \<rparr>, gl := Some gl0\<rparr>\<rparr>"

text \<open>A context with two render targets, and the two bundles that hold them.\<close>

definition gl_targets :: gl_context where
  "gl_targets =
     gl0\<lparr>fresh := 30,
         framebuffers := {11, 21},
         renderbuffers := [12 \<mapsto> (640, 480), 22 \<mapsto> (320, 240)],
         textures := [13 \<mapsto> (640, 480), 23 \<mapsto> (320, 240)]\<rparr>"

definition target_a :: RenderTarget where
  "target_a = \<lparr> framebuffer = Handle 11, renderbuffer = Handle 12, texture = Handle 13 \<rparr>"

definition target_b :: RenderTarget where
  "target_b = \<lparr> framebuffer = Handle 21, renderbuffer = Handle 22, texture = Handle 23 \<rparr>"

text \<open>A context that creates everything but buffers, and the page that holds it.\<close>

definition gl_no_buffer :: gl_context where
  "gl_no_buffer = gl0\<lparr>creatable := (\<lambda>k. k \<noteq> Buffer)\<rparr>"

definition page_no_buffer :: Page where
  "page_no_buffer = page0\<lparr>common := (common page0)\<lparr>gl := Some gl_no_buffer\<rparr>\<rparr>"


text \<open>A context that is lost, so that it creates nothing, and the page that holds it.\<close>

definition gl_lost :: gl_context where
  "gl_lost = gl0\<lparr>creatable := (\<lambda>k. False)\<rparr>"

definition page_lost :: Page where
  "page_lost = page0\<lparr>common := (common page0)\<lparr>gl := Some gl_lost\<rparr>\<rparr>"

section \<open>Lemmas\<close>

subsection \<open>Rounding\<close>


lemma pow2_pos [simp]: "0 < pow2 e"
  by (simp add: pow2_def)

lemma pow2_powr: "pow2 e = 2 powr (of_int e)"
  by (simp add: pow2_def powr_real_of_int field_simps)

lemma pow2_add: "pow2 (a + b) = pow2 a * pow2 b"
  by (simp add: pow2_powr powr_add)


lemma pow2_nat: "pow2 (int n) = 2 ^ n"
  by (simp add: pow2_def)

lemma halvings_bounds:
  "1 \<le> x \<Longrightarrow> 2 ^ halvings x \<le> x \<and> x < 2 * 2 ^ halvings x"
proof (induction x rule: halvings.induct)
  case (1 x)
  show ?case
  proof (cases "2 \<le> x")
    case True
    with "1.IH" have "2 ^ halvings (x / 2) \<le> x / 2 \<and> x / 2 < 2 * 2 ^ halvings (x / 2)"
      by simp
    with True show ?thesis
      by (subst (1 2) halvings.simps) simp
  next
    case False
    with "1.prems" show ?thesis
      by (subst (1 2) halvings.simps) simp
  qed
qed

lemma doublings_bounds:
  "0 < x \<Longrightarrow> x < 1 \<Longrightarrow> 1 \<le> x * 2 ^ doublings x \<and> x * 2 ^ doublings x < 2"
proof (induction x rule: doublings.induct)
  case (1 x)
  show ?case
  proof (cases "2 * x < 1")
    case True
    with "1.IH" "1.prems" have "1 \<le> 2 * x * 2 ^ doublings (2 * x) \<and> 2 * x * 2 ^ doublings (2 * x) < 2"
      by simp
    with "1.prems" show ?thesis
      by (subst (1 2) doublings.simps) (simp add: mult.assoc)
  next
    case False
    have "doublings (2 * x) = 0"
      using False by (subst doublings.simps) simp
    with False "1.prems" show ?thesis
      by (subst (1 2) doublings.simps) simp
  qed
qed

lemma pow2_neg_nat: "pow2 (- int k) = 1 / 2 ^ k"
  by (simp add: pow2_powr powr_minus powr_realpow field_simps)

lemma exponent_bounds:
  assumes "0 < x"
  shows "pow2 (exponent x) \<le> x" and "x < 2 * pow2 (exponent x)"
proof -
  have "pow2 (exponent x) \<le> x \<and> x < 2 * pow2 (exponent x)"
  proof (cases "1 \<le> x")
    case True
    with halvings_bounds [of x] show ?thesis by (simp add: exponent_def pow2_nat)
  next
    case False
    let ?k = "doublings x"
    from False assms doublings_bounds [of x]
    have b: "1 \<le> x * 2 ^ ?k" "x * 2 ^ ?k < 2" by simp_all
    have p: "(0::real) < 2 ^ ?k" by simp
    from b(1) p have "1 / 2 ^ ?k \<le> x" by (simp add: field_simps)
    moreover from b(2) p have "x < 2 * (1 / 2 ^ ?k)" by (simp add: field_simps)
    ultimately show ?thesis
      using False by (simp only: exponent_def pow2_neg_nat if_False)
  qed
  then show "pow2 (exponent x) \<le> x" and "x < 2 * pow2 (exponent x)" by simp_all
qed


lemma pow2_less_cancel: "pow2 a < pow2 b \<Longrightarrow> a < b"
  by (simp add: pow2_powr)

lemma pow2_neq0 [simp]: "pow2 e \<noteq> 0"
  using pow2_pos [of e] by linarith


lemma pow2_Suc: "pow2 (e + 1) = 2 * pow2 e"
  using pow2_add [of e 1] by (simp add: pow2_def [of 1])

lemma pow2_52: "pow2 e = 2 ^ 52 * pow2 (e - 52)"
proof -
  have "pow2 (52 + (e - 52)) = pow2 52 * pow2 (e - 52)" by (rule pow2_add)
  moreover have "pow2 52 = 2 ^ 52" by (simp add: pow2_def)
  ultimately show ?thesis by simp
qed

lemma exponent_unique:
  assumes "pow2 a \<le> x" and "x < 2 * pow2 a"
  shows "exponent x = a"
proof -
  from assms(1) have x: "0 < x" using pow2_pos [of a] by linarith
  from exponent_bounds [OF x] assms
  have "pow2 (exponent x) < pow2 (a + 1)" "pow2 a < pow2 (exponent x + 1)"
    by (simp_all add: pow2_Suc)
  then have "exponent x < a + 1" "a < exponent x + 1"
    by (auto dest: pow2_less_cancel)
  then show ?thesis by simp
qed

lemma rne_floor: "\<lfloor>x\<rfloor> \<le> rne x \<and> rne x \<le> \<lfloor>x\<rfloor> + 1"
  by (simp add: rne_def Let_def)

lemma rne_of_int [simp]: "rne (of_int n) = n"
  by (simp add: rne_def)


lemma rne_mono:
  assumes "x \<le> y"
  shows "rne x \<le> rne y"
proof (cases "\<lfloor>x\<rfloor> = \<lfloor>y\<rfloor>")
  case True
  with assms have "x - of_int \<lfloor>x\<rfloor> \<le> y - of_int \<lfloor>y\<rfloor>" by simp
  with True show ?thesis
    by (auto simp: rne_def Let_def)
next
  case False
  with assms have "\<lfloor>x\<rfloor> < \<lfloor>y\<rfloor>"
    using floor_mono [of x y] by linarith
  with rne_floor [of x] rne_floor [of y] show ?thesis by linarith
qed

lemma rne_ge: "of_int n \<le> x \<Longrightarrow> n \<le> rne x"
  using rne_mono [of "of_int n" x] by simp

lemma rne_le: "x \<le> of_int n \<Longrightarrow> rne x \<le> n"
  using rne_mono [of x "of_int n"] by simp

text \<open>For a positive number: the unit in the last place, and the scaled significand.\<close>

lemma significand_bounds:
  assumes "0 < x"
  shows "2 ^ 52 \<le> x / pow2 (exponent x - 52)" and "x / pow2 (exponent x - 52) < 2 ^ 53"
proof -
  have u: "pow2 (exponent x) = 2 ^ 52 * pow2 (exponent x - 52)"
    by (rule pow2_52)
  from exponent_bounds [OF assms] u
  have "2 ^ 52 * pow2 (exponent x - 52) \<le> x" "x < 2 ^ 53 * pow2 (exponent x - 52)"
    by simp_all
  then show "2 ^ 52 \<le> x / pow2 (exponent x - 52)" and "x / pow2 (exponent x - 52) < 2 ^ 53"
    by (simp_all add: pos_le_divide_eq pos_divide_less_eq)
qed

lemma binary64_pos:
  assumes "0 < x"
  shows "binary64 x = of_int (rne (x / pow2 (exponent x - 52))) * pow2 (exponent x - 52)"
  using assms by (simp add: binary64_def Let_def)

lemma rne_significand:
  assumes "0 < x"
  shows "2 ^ 52 \<le> rne (x / pow2 (exponent x - 52))" and "rne (x / pow2 (exponent x - 52)) \<le> 2 ^ 53"
proof -
  from significand_bounds [OF assms]
  have "of_int (2 ^ 52) \<le> x / pow2 (exponent x - 52)" "x / pow2 (exponent x - 52) \<le> of_int (2 ^ 53)"
    by simp_all
  then show "2 ^ 52 \<le> rne (x / pow2 (exponent x - 52))" and "rne (x / pow2 (exponent x - 52)) \<le> 2 ^ 53"
    by (simp_all only: rne_ge rne_le)
qed

lemma binary64_pos_bounds:
  assumes "0 < x"
  shows "pow2 (exponent x) \<le> binary64 x" and "binary64 x \<le> 2 * pow2 (exponent x)"
proof -
  let ?u = "pow2 (exponent x - 52)"
  have u: "pow2 (exponent x) = 2 ^ 52 * ?u"
    by (rule pow2_52)
  from rne_significand [OF assms]
  have "(2 ^ 52 :: real) \<le> of_int (rne (x / ?u))" "of_int (rne (x / ?u)) \<le> (2 ^ 53 :: real)"
    by (simp_all add: of_int_le_iff [symmetric] del: of_int_le_iff)
  then have "2 ^ 52 * ?u \<le> of_int (rne (x / ?u)) * ?u" "of_int (rne (x / ?u)) * ?u \<le> 2 ^ 53 * ?u"
    by (simp_all add: mult_right_mono)
  then show "pow2 (exponent x) \<le> binary64 x" and "binary64 x \<le> 2 * pow2 (exponent x)"
    by (simp_all add: binary64_pos [OF assms] u)
qed

lemma binary64_0 [simp]: "binary64 0 = 0"
  by (simp add: binary64_def)

lemma binary64_minus: "binary64 (- x) = - binary64 x"
  by (simp add: binary64_def Let_def sgn_minus)

lemma binary64_pos_pos: "0 < x \<Longrightarrow> 0 < binary64 x"
  using binary64_pos_bounds(1) [of x] pow2_pos [of "exponent x"] by linarith





lemma binary64_idem_pos:
  assumes "0 < x"
  shows "binary64 (binary64 x) = binary64 x"
proof -
  let ?e = "exponent x"
  let ?u = "pow2 (?e - 52)"
  let ?n = "rne (x / ?u)"
  have u: "pow2 ?e = 2 ^ 52 * ?u"
    by (rule pow2_52)
  have y: "binary64 x = of_int ?n * ?u" by (rule binary64_pos [OF assms])
  have ypos: "0 < binary64 x" by (rule binary64_pos_pos [OF assms])
  show ?thesis
  proof (cases "?n = 2 ^ 53")
    case True
    then have yv: "binary64 x = pow2 (?e + 1)"
      by (simp add: y pow2_Suc u)
    have e: "exponent (binary64 x) = ?e + 1"
      by (rule exponent_unique) (simp_all add: yv)
    have "pow2 (?e + 1) = 2 ^ 52 * pow2 (?e + 1 - 52)"
      by (rule pow2_52)
    then have "binary64 x / pow2 (?e + 1 - 52) = of_int (2 ^ 52)"
      by (simp add: yv)
    then have "rne (binary64 x / pow2 (?e + 1 - 52)) = 2 ^ 52"
      by (simp only: rne_of_int)
    then have "binary64 (binary64 x) = 2 ^ 52 * pow2 (?e + 1 - 52)"
      by (simp add: binary64_pos [OF ypos] e)
    also have "\<dots> = pow2 (?e + 1)"
      by (rule pow2_52 [symmetric])
    finally show ?thesis by (simp add: yv)
  next
    case False
    with rne_significand [OF assms] have n: "2 ^ 52 \<le> ?n" "?n < 2 ^ 53" by simp_all
    then have "(2 ^ 52 :: real) \<le> of_int ?n" "of_int ?n < (2 ^ 53 :: real)"
      by (simp_all add: of_int_le_iff [symmetric] of_int_less_iff [symmetric]
            del: of_int_le_iff of_int_less_iff)
    then have "2 ^ 52 * ?u \<le> of_int ?n * ?u" "of_int ?n * ?u < 2 ^ 53 * ?u"
      by (simp_all add: mult_right_mono)
    then have e: "exponent (binary64 x) = ?e"
      by (intro exponent_unique) (simp_all add: y u)
    have "binary64 x / ?u = of_int ?n" by (simp add: y)
    then have "rne (binary64 x / ?u) = ?n" by (simp only: rne_of_int)
    then show ?thesis
      by (simp add: binary64_pos [OF ypos] e y [symmetric])
  qed
qed

lemma binary64_idem [simp]: "binary64 (binary64 x) = binary64 x"
proof -
  consider "0 < x" | "x = 0" | "0 < - x" by linarith
  then show ?thesis
  proof cases
    case 1 then show ?thesis by (rule binary64_idem_pos)
  next
    case 2 then show ?thesis by simp
  next
    case 3
    from binary64_idem_pos [OF 3] show ?thesis by (simp add: binary64_minus)
  qed
qed


lemma emit_emit: "emit b (emit a g) = emit (a @ b) g"
  by (simp add: emit_def)

lemma emit_Nil [simp]: "emit [] g = g"
  by (simp add: emit_def)

lemma emit_fields [simp]:
  "isWebGL2 (emit es g) = isWebGL2 g"
  "creatable (emit es g) = creatable g"
  "COMPILE_STATUS (emit es g) = COMPILE_STATUS g"
  "LINK_STATUS (emit es g) = LINK_STATUS g"
  "getAttribLocation (emit es g) = getAttribLocation g"
  "getUniformLocation (emit es g) = getUniformLocation g"
  "hasMethod (emit es g) = hasMethod g"
  "fresh (emit es g) = fresh g"
  "framebuffers (emit es g) = framebuffers g"
  "renderbuffers (emit es g) = renderbuffers g"
  "textures (emit es g) = textures g"
  "boundFramebuffer (emit es g) = boundFramebuffer g"
  "boundRenderbuffer (emit es g) = boundRenderbuffer g"
  "boundTexture (emit es g) = boundTexture g"
  "trace (emit es g) = trace g @ es"
  by (simp_all add: emit_def)

subsection \<open>The constructor\<close>

lemma createShader_eq:
  "createShader g src ty =
     (if creatable g (Shader ty)
      then (if COMPILE_STATUS g src ty
            then (Some (fresh g),
                  emit [Create (Shader ty) (Some (fresh g)), ShaderSource (fresh g) src,
                        CompileShader (fresh g)] (g\<lparr>fresh := Suc (fresh g)\<rparr>))
            else (None,
                  emit [Create (Shader ty) (Some (fresh g)), ShaderSource (fresh g) src,
                        CompileShader (fresh g), Alert] (g\<lparr>fresh := Suc (fresh g)\<rparr>)))
      else (None, emit [Create (Shader ty) None] g))"
  by (simp add: createShader_def gl_create_def Let_def emit_def)

lemma createShader_trace:
  "createShader g src ty = (r, g1) \<Longrightarrow>
   \<exists>es. trace g1 = trace g @ Create (Shader ty)
                        (if creatable g (Shader ty) then Some (fresh g) else None) # es"
  by (auto simp: createShader_eq split: if_splits)

lemma createShader_grows:
  "createShader g src ty = (r, g1) \<Longrightarrow> \<exists>es. trace g1 = trace g @ es"
  by (auto simp: createShader_eq split: if_splits)

lemma createProgram_grows:
  "createProgram g vs fs = (r, g1) \<Longrightarrow> \<exists>es. trace g1 = trace g @ es"
  by (auto simp: createProgram_def gl_create_def Let_def split: if_splits)

lemma createTransformFeedbackProgram_grows:
  "createTransformFeedbackProgram g vs fs v = (r, g1) \<Longrightarrow> \<exists>es. trace g1 = trace g @ es"
  by (auto simp: createTransformFeedbackProgram_def gl_create_def Let_def split: if_splits)

lemma paired_passes_checks:
  assumes "descriptors_paired option"
  shows "length (attribute option) = length (stride option)"
    and "\<not> ((Array_isArray (uniform option) \<or> Array_isArray (type option)) \<and>
            (\<not> Array_isArray (uniform option) \<or> \<not> Array_isArray (type option) \<or>
             length (the (uniform option)) \<noteq> length (the (type option))))"
  using assms by (auto simp: descriptors_paired_def Array_isArray_def split: option.splits)

lemma constructor_rejects:
  "\<not> descriptors_paired option \<Longrightarrow>
   \<exists>e. ShaderProgram_constructor g option = (Inl (Error e), g)"
  by (auto simp: descriptors_paired_def ShaderProgram_constructor_def Array_isArray_def
           split: option.splits)

lemma constructor_proceeds:
  assumes "descriptors_paired option"
  shows "\<exists>es. trace (snd (ShaderProgram_constructor g option)) =
           trace g @ Create (Shader VERTEX_SHADER)
             (if creatable g (Shader VERTEX_SHADER) then Some (fresh g) else None) # es"
proof -
  obtain v g1 where v: "createShader g (vertexShaderSource option) VERTEX_SHADER = (v, g1)"
    by (cases "createShader g (vertexShaderSource option) VERTEX_SHADER")
  obtain f g2 where f: "createShader g1 (fragmentShaderSource option) FRAGMENT_SHADER = (f, g2)"
    by (cases "createShader g1 (fragmentShaderSource option) FRAGMENT_SHADER")
  from createShader_trace [OF v] obtain es1 where
    es1: "trace g1 = trace g @ Create (Shader VERTEX_SHADER)
             (if creatable g (Shader VERTEX_SHADER) then Some (fresh g) else None) # es1"
    by blast
  from createShader_grows [OF f] obtain es2 where es2: "trace g2 = trace g1 @ es2"
    by blast
  show ?thesis
    using paired_passes_checks [OF assms] v f es1 es2
    by (auto simp: ShaderProgram_constructor_def Let_def
             split: prod.splits option.splits
             dest!: createProgram_grows createTransformFeedbackProgram_grows)
qed

lemma constructor_succeeds:
  assumes "descriptors_paired option" and "compiles_and_links g option"
  shows "\<exists>p g'. ShaderProgram_constructor g option = (Inr p, g') \<and>
           attribute p = attribute option \<and> stride p = stride option \<and>
           uniform p = uniform option \<and> type p = type option \<and>
           length (attributeLocation p) = length (attribute option) \<and>
           map_option length (uniformLocation p) = map_option length (uniform option)"
  using paired_passes_checks [OF assms(1)] assms(2)
  by (cases "uniform option")
     (simp_all add: ShaderProgram_constructor_def compiles_and_links_def createShader_eq
           createProgram_def createTransformFeedbackProgram_def gl_create_def Let_def)

lemma constructor_Inr:
  assumes "ShaderProgram_constructor g option = (Inr p, g')"
  shows "descriptors_paired option \<and> compiles_and_links g option"
  using assms
  by (auto simp: ShaderProgram_constructor_def compiles_and_links_def createShader_eq
             descriptors_paired_def Array_isArray_def
             createProgram_def createTransformFeedbackProgram_def gl_create_def Let_def
           split: if_splits option.splits prod.splits)



subsection \<open>\<open>setUniform\<close>\<close>




lemma is_double_binary64 [simp]: "is_double (binary64 x)"
  by (simp add: is_double_def)

lemma is_double_0 [simp]: "is_double 0"
  by (simp add: is_double_def)




subsection \<open>The clock\<close>














subsection \<open>The pointer\<close>

lemma setCoords_coords:
  assumes "canvas (common pg) = Some cv"
  shows "coords (pointer (setCoords px py pg)) =
           (px / real (width cv) * 2 - 1, - (py / real (height cv)) * 2 + 1)"
  using assms by (simp add: setCoords_def Let_def split: prod.splits)

subsection \<open>Render targets\<close>

lemmas gl_defs =
  hasOwnProperty_def isFramebuffer_def isRenderbuffer_def isTexture_def slot_handle_def
  bindFramebuffer_def bindRenderbuffer_def bindTexture_def
  gl_deleteFramebuffer_def gl_deleteRenderbuffer_def gl_deleteTexture_def

lemma deleteFramebuffer_released:
  "deleteFramebuffer g (Some ob) = (Some ob', g') \<Longrightarrow> released g ob \<Longrightarrow> ob' = ob \<and> g' = g"
  by (auto simp: deleteFramebuffer_def released_def Let_def)

lemma deleteFramebuffer_once:
  "\<exists>ob' g'. deleteFramebuffer g (Some ob) = (Some ob', g') \<and>
      framebuffer ob' = (if isFramebuffer g (framebuffer ob) then Null else framebuffer ob) \<and>
      renderbuffer ob' = (if isRenderbuffer g (renderbuffer ob) then Null else renderbuffer ob) \<and>
      texture ob' = (if isTexture g (texture ob) then Null else texture ob) \<and>
      trace g' = trace g
        @ unbind_then_delete (BindFramebuffer None) DeleteFramebuffer
            (isFramebuffer g (framebuffer ob)) (framebuffer ob)
        @ unbind_then_delete (BindRenderbuffer None) DeleteRenderbuffer
            (isRenderbuffer g (renderbuffer ob)) (renderbuffer ob)
        @ unbind_then_delete (BindTexture None) DeleteTexture
            (isTexture g (texture ob)) (texture ob) \<and>
      released g' ob \<and> released g' ob'"
  by (cases "framebuffer ob"; cases "renderbuffer ob"; cases "texture ob")
     (simp_all add: deleteFramebuffer_def released_def unbind_then_delete_def gl_defs Let_def emit_emit)


lemma resizeFramebuffer_no_target:
  "resizeFramebuffer g buffers None w h = (None, g)"
  "\<not> isRenderbuffer g (renderbuffer ob) \<Longrightarrow> \<not> isTexture g (texture ob) \<Longrightarrow>
   resizeFramebuffer g buffers (Some ob) w h = (None, g)"
  by (simp_all add: resizeFramebuffer_def)


subsection \<open>The frame loop\<close>

text \<open>What \<open>render\<close> leaves of the page: the context and the calls to the window.\<close>

lemma Output_render_shape:
  "\<exists>G cs. Output_render pg = pg\<lparr>common := (common pg)\<lparr>gl := G\<rparr>, window := call cs (window pg)\<rparr>
      \<and> RequestAnimationFrame \<notin> set cs"
proof (cases "\<exists>g cv sp pl. gl (common pg) = Some g \<and> canvas (common pg) = Some cv \<and>
                shaderProgram (app_output pg) = Some sp \<and> plane (app_output pg) = Some pl")
  case True
  then obtain g cv sp pl where a: "gl (common pg) = Some g" "canvas (common pg) = Some cv"
      "shaderProgram (app_output pg) = Some sp" "plane (app_output pg) = Some pl"
    by blast
  obtain r g1 where r: "render_try g cv sp pl (time (common pg)) (coords (pointer pg)) = (r, g1)"
    by (cases "render_try g cv sp pl (time (common pg)) (coords (pointer pg))")
  show ?thesis
  proof (cases r)
    case None
    with a r have "Output_render pg =
        pg\<lparr>common := (common pg)\<lparr>gl := Some g1\<rparr>, window := call [] (window pg)\<rparr>"
      by (simp add: Output_render_def call_def)
    then show ?thesis by (intro exI [of _ "Some g1"] exI [of _ "[]"]) simp
  next
    case (Some e)
    with a r have "Output_render pg =
        pg\<lparr>common := (common pg)\<lparr>gl := Some g1\<rparr>,
           window := call [ConsoleError ''Error during render:''] (window pg)\<rparr>"
      by (simp add: Output_render_def)
    then show ?thesis
      by (intro exI [of _ "Some g1"] exI [of _ "[ConsoleError ''Error during render:'']"]) simp
  qed
next
  case False
  then have "Output_render pg =
      pg\<lparr>window := call [ConsoleError
             ''WebGL context, canvas, shader program or plane geometry is missing.'']
             (window pg)\<rparr>"
    by (auto simp: Output_render_def split: option.splits)
  then have "Output_render pg =
      pg\<lparr>common := (common pg)\<lparr>gl := gl (common pg)\<rparr>,
         window := call [ConsoleError
             ''WebGL context, canvas, shader program or plane geometry is missing.'']
             (window pg)\<rparr>"
    by simp
  then show ?thesis
    by (intro exI [of _ "gl (common pg)"] exI [of _ "[ConsoleError
             ''WebGL context, canvas, shader program or plane geometry is missing.'']"]) simp
qed


lemma Output_render_set_running:
  "Output_render (set_running b pg) = set_running b (Output_render pg)"
  by (simp add: Output_render_def set_running_def split: option.split prod.split)

lemma Gui_update_set_running:
  "Gui_update (set_running b pg) = set_running b (Gui_update pg)"
  by (simp add: Gui_update_def set_running_def)

lemma Gui_update_shape:
  "\<exists>cs. Gui_update pg = pg\<lparr>window := call cs (window pg)\<rparr> \<and> RequestAnimationFrame \<notin> set cs"
proof (cases "fps (gui (app_output pg))")
  case True
  then show ?thesis
    by (intro exI [of _ "[FpsBegin, FpsEnd]"]) (simp add: Gui_update_def)
next
  case False
  then show ?thesis
    by (intro exI [of _ "[]"]) (simp add: Gui_update_def call_def)
qed

lemma call_call: "call b (call a win) = call (a @ b) win"
  by (simp add: call_def)

lemma Output_update_shape:
  "\<exists>G cs. Output_update pg = pg\<lparr>common := (common pg)\<lparr>gl := G\<rparr>, window := call cs (window pg)\<rparr>
      \<and> RequestAnimationFrame \<notin> set cs"
proof -
  obtain G cs where 1:
    "Output_render pg = pg\<lparr>common := (common pg)\<lparr>gl := G\<rparr>, window := call cs (window pg)\<rparr>"
    "RequestAnimationFrame \<notin> set cs"
    using Output_render_shape by blast
  obtain cs' where 2:
    "Gui_update (Output_render pg) =
       (Output_render pg)\<lparr>window := call cs' (window (Output_render pg))\<rparr>"
    "RequestAnimationFrame \<notin> set cs'"
    using Gui_update_shape by blast
  have "Output_update pg =
      pg\<lparr>common := (common pg)\<lparr>gl := G\<rparr>, window := call (cs @ cs') (window pg)\<rparr>"
    unfolding Output_update_def 2(1) unfolding 1(1) by (simp add: call_call)
  with 1(2) 2(2) show ?thesis
    by (intro exI [of _ G] exI [of _ "cs @ cs'"]) simp
qed

lemma frame_work_shape:
  "\<exists>G cs. frame_work now pg =
       pg\<lparr>common := (Common_update now (common pg))\<lparr>gl := G\<rparr>,
          window := call (DateNow # cs) (window pg)\<rparr>
      \<and> RequestAnimationFrame \<notin> set cs"
proof -
  let ?pg = "pg\<lparr>common := Common_update now (common pg), window := call [DateNow] (window pg)\<rparr>"
  obtain G cs where 1:
    "Output_update ?pg = ?pg\<lparr>common := (common ?pg)\<lparr>gl := G\<rparr>, window := call cs (window ?pg)\<rparr>"
    "RequestAnimationFrame \<notin> set cs"
    using Output_update_shape by blast
  have "frame_work now pg =
       pg\<lparr>common := (Common_update now (common pg))\<lparr>gl := G\<rparr>,
          window := call (DateNow # cs) (window pg)\<rparr>"
    unfolding frame_work_def 1(1) by (simp add: call_call)
  with 1(2) show ?thesis by blast
qed

lemma frame_work_set_running:
  "frame_work now (set_running b pg) = set_running b (frame_work now pg)"
proof -
  have "pg\<lparr>common := (common pg)\<lparr>running := b\<rparr>\<rparr>
          \<lparr>common := Common_update now ((common pg)\<lparr>running := b\<rparr>),
           window := call [DateNow] (window pg)\<rparr> =
        set_running b (pg\<lparr>common := Common_update now (common pg),
                           window := call [DateNow] (window pg)\<rparr>)"
    by (simp add: set_running_def Common_update_def Let_def)
  then show ?thesis
    by (simp add: frame_work_def Output_update_def set_running_def [of b pg]
          Output_render_set_running Gui_update_set_running)
qed


lemma frame_work_keeps:
  "animationFrames (window (frame_work now pg)) = animationFrames (window pg)"
  "running (common (frame_work now pg)) = running (common pg)"
  "\<exists>cs. calls (window (frame_work now pg)) = calls (window pg) @ DateNow # cs \<and>
        RequestAnimationFrame \<notin> set cs"
proof -
  obtain G cs where 1: "frame_work now pg =
       pg\<lparr>common := (Common_update now (common pg))\<lparr>gl := G\<rparr>,
          window := call (DateNow # cs) (window pg)\<rparr>"
     "RequestAnimationFrame \<notin> set cs"
    using frame_work_shape by blast
  show "animationFrames (window (frame_work now pg)) = animationFrames (window pg)"
    unfolding 1(1) by (simp add: call_def)
  show "running (common (frame_work now pg)) = running (common pg)"
    unfolding 1(1) by (simp add: Common_update_def Let_def)
  show "\<exists>cs. calls (window (frame_work now pg)) = calls (window pg) @ DateNow # cs \<and>
        RequestAnimationFrame \<notin> set cs"
    unfolding 1(1) using 1(2) by (simp add: call_def)
qed

lemma render_calls:
  "\<exists>cs. calls (window (WebGLApp_render now pg)) =
          calls (window pg) @ (if running (common pg) then [RequestAnimationFrame] else [])
            @ DateNow # cs \<and>
        RequestAnimationFrame \<notin> set cs"
proof (cases "running (common pg)")
  case True
  with frame_work_keeps(3) [of now "pg\<lparr>window := requestAnimationFrame (window pg)\<rparr>"]
  show ?thesis
    by (simp add: WebGLApp_render_def requestAnimationFrame_def call_def)
next
  case False
  with frame_work_keeps(3) [of now pg] show ?thesis
    by (simp add: WebGLApp_render_def)
qed

lemma render_frames:
  "animationFrames (window (WebGLApp_render now pg)) =
     animationFrames (window pg) + (if running (common pg) then 1 else 0)"
  by (simp add: WebGLApp_render_def frame_work_keeps requestAnimationFrame_def call_def)

lemma render_running:
  "running (common (WebGLApp_render now pg)) = running (common pg)"
  by (simp add: WebGLApp_render_def frame_work_keeps)

lemma setCoords_keeps:
  "running (common (setCoords px py pg)) = running (common pg)"
  "animationFrames (window (setCoords px py pg)) = animationFrames (window pg)"
  "scheduled (setCoords px py pg) = scheduled pg"
  by (simp_all add: setCoords_def scheduled_def setTimeout_def clearTimeout_def call_def Let_def
        split: option.split)

lemma timeout_expires_keeps:
  "running (common (timeout_expires t pg)) = running (common pg)"
  "animationFrames (window (timeout_expires t pg)) = animationFrames (window pg)"
  "scheduled (timeout_expires t pg) = scheduled pg"
  by (simp_all add: timeout_expires_def scheduled_def)

lemma stopped_browser:
  assumes "\<not> running (common pg)" and "animationFrames (window pg) = 0"
  shows "\<not> running (common (browser e pg)) \<and> animationFrames (window (browser e pg)) = 0 \<and>
         scheduled (browser e pg) = scheduled pg"
proof (cases e)
  case (Refresh now)
  with assms show ?thesis by (simp add: animation_frame_def)
next
  case (PointerAt px py)
  with assms show ?thesis by (simp add: setCoords_keeps)
next
  case (Expire t)
  with assms show ?thesis by (simp add: timeout_expires_keeps)
qed

lemma stopped_forever:
  assumes "\<not> running (common pg)" and "animationFrames (window pg) = 0"
  shows "\<not> running (common (fold browser es pg)) \<and>
         animationFrames (window (fold browser es pg)) = 0 \<and>
         scheduled (fold browser es pg) = scheduled pg"
  using assms
proof (induction es arbitrary: pg)
  case Nil
  then show ?case by simp
next
  case (Cons e es)
  from stopped_browser [OF Cons.prems, of e] Cons.IH [of "browser e pg"]
  show ?case by simp
qed


lemma Output_update_set_running:
  "Output_update (set_running b pg) = set_running b (Output_update pg)"
  by (simp add: Output_update_def Output_render_set_running Gui_update_set_running)

lemma stopped_during_eq:
  "stopped_during now pg = set_running False (WebGLApp_render now pg)"
  by (simp only: stopped_during_def WebGLApp_render_def frame_work_set_running)

lemma stopped_during_fields:
  "\<not> running (common (stopped_during now pg))"
  "animationFrames (window (stopped_during now pg)) =
     animationFrames (window pg) + (if running (common pg) then 1 else 0)"
  "calls (window (stopped_during now pg)) = calls (window (WebGLApp_render now pg))"
  by (simp_all add: stopped_during_eq set_running_def render_frames)

subsection \<open>\<open>Output\<close>\<close>

lemma createVbo_fails:
  "\<not> creatable g Buffer \<Longrightarrow> createVbo g data = (None, emit [Create Buffer None] g)"
  by (simp add: createVbo_def gl_create_def)

lemma Output_init_placeholder:
  assumes "gl (common pg) = Some g" and "\<not> creatable g Buffer"
  shows "Output_init bv fr pg = Output_load bv fr (without_buffer g pg)"
  using assms
  by (simp add: Output_init_def createVbo_fails createPlaneAttribute_def Let_def
        without_buffer_def placeholder_plane_def)

lemma Output_load_placeholder:
  "Output_load bv fr (without_buffer g pg) =
     (case ShaderProgram_constructor (emit [Create Buffer None] g) (load_options bv fr) of
        (Inl e, g1) \<Rightarrow> (Some e, (without_buffer g pg)\<lparr>common := (common (without_buffer g pg))\<lparr>gl := Some g1\<rparr>\<rparr>)
      | (Inr sp, g1) \<Rightarrow>
          (None, (without_buffer g pg)\<lparr>common := (common (without_buffer g pg))\<lparr>gl := Some g1\<rparr>,
                    app_output := (app_output (without_buffer g pg))\<lparr>shaderProgram := Some sp\<rparr>\<rparr>))"
  by (simp add: Output_load_def without_buffer_def placeholder_plane_def load_options_def
        split: prod.split sum.split)

lemma Output_load_keeps:
  "window (snd (Output_load bv fr pg)) = window pg"
  "plane (app_output (snd (Output_load bv fr pg))) = plane (app_output pg)"
  by (simp_all add: Output_load_def split: option.split prod.split sum.split)

lemma constructor_errors:
  assumes "ShaderProgram_constructor g option = (Inl e, g')" and "descriptors_paired option"
  shows "e = Error ''shader compilation failed'' \<or> e = Error ''shader program creation failed''"
  using assms(1) paired_passes_checks [OF assms(2)]
  by (auto simp: ShaderProgram_constructor_def Let_def
        split: prod.splits option.splits if_splits)

lemma constructor_attribute:
  assumes "ShaderProgram_constructor g option = (Inr p, g')"
  shows "attribute p = attribute option"
  using constructor_Inr [OF assms] constructor_succeeds [of option g] assms by auto

lemma render_try_placeholder:
  assumes "vbo pl = [EmptyArray]" and "length (attribute sp) = 1"
  shows "render_try g cv sp pl t xy =
     (Some (TypeError ''bindBuffer: parameter 2 is not of type WebGLBuffer''),
      emit [BindFramebuffer None, Viewport (real (width cv)) (real (height cv)), Clear,
            UseProgram (program sp)] (g\<lparr>boundFramebuffer := None\<rparr>))"
  using assms
  by (simp add: render_try_def setAttribute_def use_def bindFramebuffer_def slot_handle_def
        emit_emit Let_def)

lemma render_with_placeholder:
  assumes "gl (common pg) = Some g" and "shaderProgram (app_output pg) = Some sp"
    and "plane (app_output pg) = Some pl" and "vbo pl = [EmptyArray]"
    and "length (attribute sp) = 1"
  shows "\<exists>msg G es. Output_render pg =
            pg\<lparr>common := (common pg)\<lparr>gl := Some G\<rparr>,
               window := call [ConsoleError msg] (window pg)\<rparr> \<and>
          trace G = trace g @ es \<and> (\<forall>n. DrawArrays n \<notin> set es)"
proof (cases "canvas (common pg)")
  case None
  with assms have "Output_render pg =
      pg\<lparr>common := (common pg)\<lparr>gl := Some g\<rparr>,
         window := call [ConsoleError
           ''WebGL context, canvas, shader program or plane geometry is missing.''] (window pg)\<rparr>"
    by (simp add: Output_render_def)
  then show ?thesis
    by (intro exI [of _ "''WebGL context, canvas, shader program or plane geometry is missing.''"]
          exI [of _ g] exI [of _ "[]"]) simp
next
  case (Some cv)
  let ?G = "emit [BindFramebuffer None, Viewport (real (width cv)) (real (height cv)), Clear,
            UseProgram (program sp)] (g\<lparr>boundFramebuffer := None\<rparr>)"
  from Some assms have "Output_render pg =
      pg\<lparr>common := (common pg)\<lparr>gl := Some ?G\<rparr>,
         window := call [ConsoleError ''Error during render:''] (window pg)\<rparr>"
    by (simp add: Output_render_def render_try_placeholder)
  then show ?thesis
    by (intro exI [of _ "''Error during render:''"] exI [of _ ?G]
          exI [of _ "[BindFramebuffer None, Viewport (real (width cv)) (real (height cv)), Clear,
            UseProgram (program sp)]"]) simp
qed


lemma constructor_quiet:
  assumes "descriptors_paired option" and "compiles_and_links g option"
  shows "Alert \<notin> set (drop (length (trace g)) (trace (snd (ShaderProgram_constructor g option))))"
  using paired_passes_checks [OF assms(1)] assms(2)
  by (cases "uniform option")
     (auto simp: ShaderProgram_constructor_def compiles_and_links_def createShader_eq
           createProgram_def createTransformFeedbackProgram_def gl_create_def Let_def)

lemma Output_init_constructs:
  assumes "gl (common pg) = Some g" and "\<not> creatable g Buffer"
  shows "Output_init bv fr pg =
     (case ShaderProgram_constructor (emit [Create Buffer None] g) (load_options bv fr) of
        (Inl e, g1) \<Rightarrow>
          (Some e, (without_buffer g pg)\<lparr>common := (common (without_buffer g pg))\<lparr>gl := Some g1\<rparr>\<rparr>)
      | (Inr sp, g1) \<Rightarrow>
          (None, (without_buffer g pg)
                   \<lparr>common := (common (without_buffer g pg))\<lparr>gl := Some g1\<rparr>,
                    app_output := (app_output (without_buffer g pg))\<lparr>shaderProgram := Some sp\<rparr>\<rparr>))"
  unfolding Output_init_placeholder [OF assms] by (rule Output_load_placeholder)

lemma Output_init_context:
  assumes "gl (common pg) = Some g" and "\<not> creatable g Buffer"
  shows "gl (common (snd (Output_init bv fr pg))) =
           Some (snd (ShaderProgram_constructor (emit [Create Buffer None] g) (load_options bv fr)))"
  unfolding Output_init_constructs [OF assms]
  by (simp split: prod.split sum.split)

section \<open>Theorems\<close>

text \<open>
  C7. \<open>createIboInt\<close> called with capabilities that lack the 32-bit-index extension (the
  record is \<open>null\<close>, or its \<open>elementIndexUint\<close> is \<open>null\<close>) throws: the result is the
  error, never a handle and never \<open>null\<close>, and the context is left exactly as it was, so
  no buffer was created and no command was sent.
\<close>

theorem createIboInt_without_capability:
  assumes "ext = None \<or> (\<exists>e. ext = Some e \<and> elementIndexUint e = None)"
  shows "createIboInt g ext data = (Inl (Error ''element index Uint not supported''), g)"
  using assms by (auto simp: createIboInt_def)

theorem createIboInt_without_capability_witness:
  "createIboInt gl0 None [0, 1, 2] = (Inl (Error ''element index Uint not supported''), gl0)
   \<and> createIboInt gl0 (Some \<lparr>elementIndexUint = None, textureFloat = Some Extension,
                               textureHalfFloat = None\<rparr>) [0, 1, 2]
       = (Inl (Error ''element index Uint not supported''), gl0)"
  using createIboInt_without_capability [of None gl0 "[0, 1, 2]"]
        createIboInt_without_capability
          [of "Some \<lparr>elementIndexUint = None, textureFloat = Some Extension,
                      textureHalfFloat = None\<rparr>" gl0 "[0, 1, 2]"]
  by simp

text \<open>
  C3. The constructor of \<open>ShaderProgram\<close> checks the pairing of its descriptors before
  it sends anything to the context. When the options are paired (as many strides as
  attribute names; uniform names and update tags both absent, or of equal number), it
  goes on to the context, its first command being the creation of the vertex shader, and
  it returns the object when both shaders compile and the program links. When they are
  not paired it throws and the context is exactly as it was: no shader was created. It
  returns an object in no other case than paired options whose shaders compile and link.
\<close>

theorem ShaderProgram_constructor_validates_pairing:
  "(descriptors_paired option \<longrightarrow>
      (\<exists>es. trace (snd (ShaderProgram_constructor g option)) =
              trace g @ Create (Shader VERTEX_SHADER)
                (if creatable g (Shader VERTEX_SHADER) then Some (fresh g) else None) # es) \<and>
      (compiles_and_links g option \<longrightarrow>
         (\<exists>p g'. ShaderProgram_constructor g option = (Inr p, g') \<and>
            attribute p = attribute option \<and> stride p = stride option \<and>
            uniform p = uniform option \<and> type p = type option))) \<and>
   (\<not> descriptors_paired option \<longrightarrow>
      (\<exists>e. ShaderProgram_constructor g option = (Inl (Error e), g))) \<and>
   ((\<exists>p g'. ShaderProgram_constructor g option = (Inr p, g')) \<longleftrightarrow>
      descriptors_paired option \<and> compiles_and_links g option)"
proof (intro conjI impI)
  assume "descriptors_paired option"
  then show "\<exists>es. trace (snd (ShaderProgram_constructor g option)) =
              trace g @ Create (Shader VERTEX_SHADER)
                (if creatable g (Shader VERTEX_SHADER) then Some (fresh g) else None) # es"
    by (rule constructor_proceeds)
next
  assume "descriptors_paired option" and "compiles_and_links g option"
  from constructor_succeeds [OF this]
  show "\<exists>p g'. ShaderProgram_constructor g option = (Inr p, g') \<and>
            attribute p = attribute option \<and> stride p = stride option \<and>
            uniform p = uniform option \<and> type p = type option"
    by blast
next
  assume "\<not> descriptors_paired option"
  then show "\<exists>e. ShaderProgram_constructor g option = (Inl (Error e), g)"
    by (rule constructor_rejects)
next
  show "(\<exists>p g'. ShaderProgram_constructor g option = (Inr p, g')) \<longleftrightarrow>
          descriptors_paired option \<and> compiles_and_links g option"
    using constructor_Inr [of g option] constructor_succeeds [of option g] by blast
qed

theorem ShaderProgram_constructor_validates_pairing_witness:
  "descriptors_paired output_options \<and> compiles_and_links gl0 output_options \<and>
   (\<exists>p g'. ShaderProgram_constructor gl0 output_options = (Inr p, g')) \<and>
   \<not> descriptors_paired (output_options\<lparr>stride := [3, 2]\<rparr>) \<and>
   (\<exists>e. ShaderProgram_constructor gl0 (output_options\<lparr>stride := [3, 2]\<rparr>) = (Inl (Error e), gl0)) \<and>
   \<not> descriptors_paired (output_options\<lparr>type := None\<rparr>) \<and>
   (\<exists>e. ShaderProgram_constructor gl0 (output_options\<lparr>type := None\<rparr>) = (Inl (Error e), gl0))"
proof -
  have 1: "descriptors_paired output_options"
    by (simp add: descriptors_paired_def output_options_def)
  have 2: "compiles_and_links gl0 output_options"
    by (simp add: compiles_and_links_def gl0_def)
  have 3: "\<not> descriptors_paired (output_options\<lparr>stride := [3, 2]\<rparr>)"
    by (simp add: descriptors_paired_def output_options_def)
  have 4: "\<not> descriptors_paired (output_options\<lparr>type := None\<rparr>)"
    by (simp add: descriptors_paired_def output_options_def)
  show ?thesis
    using 1 2 3 4
      ShaderProgram_constructor_validates_pairing [of output_options gl0]
      ShaderProgram_constructor_validates_pairing [of "output_options\<lparr>stride := [3, 2]\<rparr>" gl0]
      ShaderProgram_constructor_validates_pairing [of "output_options\<lparr>type := None\<rparr>" gl0]
    by blast
qed



text \<open>
  C5, amended. \<open>deleteFramebuffer\<close> is idempotent. On no bundle it does nothing. On a
  bundle, one call sets to \<open>null\<close> every field that holds an object the context knows, and
  leaves the other fields as they are; for each such object it sends the unbinding and
  then the deletion, framebuffer first, then renderbuffer, then texture; afterwards
  neither the old bundle nor the new one names an object the context knows, and when
  every object of the bundle was known to the context every field is now \<open>null\<close> or
  absent. A second call on the result changes neither the bundle nor the context, and
  so does a call on a bundle whose fields are all \<open>null\<close> or absent.
\<close>

theorem deleteFramebuffer_idempotent:
  "deleteFramebuffer g None = (None, g) \<and>
   (\<exists>ob' g'. deleteFramebuffer g (Some ob) = (Some ob', g') \<and>
      framebuffer ob' = (if isFramebuffer g (framebuffer ob) then Null else framebuffer ob) \<and>
      renderbuffer ob' = (if isRenderbuffer g (renderbuffer ob) then Null else renderbuffer ob) \<and>
      texture ob' = (if isTexture g (texture ob) then Null else texture ob) \<and>
      trace g' = trace g
        @ unbind_then_delete (BindFramebuffer None) DeleteFramebuffer
            (isFramebuffer g (framebuffer ob)) (framebuffer ob)
        @ unbind_then_delete (BindRenderbuffer None) DeleteRenderbuffer
            (isRenderbuffer g (renderbuffer ob)) (renderbuffer ob)
        @ unbind_then_delete (BindTexture None) DeleteTexture
            (isTexture g (texture ob)) (texture ob) \<and>
      released g' ob \<and> released g' ob' \<and>
      (intact g ob \<longrightarrow> cleared ob') \<and>
      deleteFramebuffer g' (Some ob') = (Some ob', g')) \<and>
   (cleared ob \<longrightarrow> deleteFramebuffer g (Some ob) = (Some ob, g))"
proof (intro conjI impI)
  show "deleteFramebuffer g None = (None, g)"
    by (simp add: deleteFramebuffer_def)
next
  from deleteFramebuffer_once [of g ob] obtain ob' g' where
    once: "deleteFramebuffer g (Some ob) = (Some ob', g')"
      "framebuffer ob' = (if isFramebuffer g (framebuffer ob) then Null else framebuffer ob)"
      "renderbuffer ob' = (if isRenderbuffer g (renderbuffer ob) then Null else renderbuffer ob)"
      "texture ob' = (if isTexture g (texture ob) then Null else texture ob)"
      "trace g' = trace g
        @ unbind_then_delete (BindFramebuffer None) DeleteFramebuffer
            (isFramebuffer g (framebuffer ob)) (framebuffer ob)
        @ unbind_then_delete (BindRenderbuffer None) DeleteRenderbuffer
            (isRenderbuffer g (renderbuffer ob)) (renderbuffer ob)
        @ unbind_then_delete (BindTexture None) DeleteTexture
            (isTexture g (texture ob)) (texture ob)"
      "released g' ob" "released g' ob'"
    by blast
  obtain ob'' g'' where twice: "deleteFramebuffer g' (Some ob') = (Some ob'', g'')"
    using deleteFramebuffer_once [of g' ob'] by blast
  from deleteFramebuffer_released [OF twice once(7)] twice
  have "deleteFramebuffer g' (Some ob') = (Some ob', g')" by simp
  moreover from once(2-4) have "intact g ob \<longrightarrow> cleared ob'"
    by (auto simp: intact_def cleared_def)
  ultimately show "\<exists>ob' g'. deleteFramebuffer g (Some ob) = (Some ob', g') \<and>
      framebuffer ob' = (if isFramebuffer g (framebuffer ob) then Null else framebuffer ob) \<and>
      renderbuffer ob' = (if isRenderbuffer g (renderbuffer ob) then Null else renderbuffer ob) \<and>
      texture ob' = (if isTexture g (texture ob) then Null else texture ob) \<and>
      trace g' = trace g
        @ unbind_then_delete (BindFramebuffer None) DeleteFramebuffer
            (isFramebuffer g (framebuffer ob)) (framebuffer ob)
        @ unbind_then_delete (BindRenderbuffer None) DeleteRenderbuffer
            (isRenderbuffer g (renderbuffer ob)) (renderbuffer ob)
        @ unbind_then_delete (BindTexture None) DeleteTexture
            (isTexture g (texture ob)) (texture ob) \<and>
      released g' ob \<and> released g' ob' \<and>
      (intact g ob \<longrightarrow> cleared ob') \<and>
      deleteFramebuffer g' (Some ob') = (Some ob', g')"
    using once by blast
next
  assume "cleared ob"
  then have "released g ob"
    by (auto simp: cleared_def released_def isFramebuffer_def isRenderbuffer_def isTexture_def)
  moreover obtain ob' g' where d: "deleteFramebuffer g (Some ob) = (Some ob', g')"
    using deleteFramebuffer_once [of g ob] by blast
  ultimately show "deleteFramebuffer g (Some ob) = (Some ob, g)"
    using deleteFramebuffer_released [OF d] by simp
qed

theorem deleteFramebuffer_idempotent_witness:
  "(\<exists>ob' g'. deleteFramebuffer gl_targets (Some target_a) = (Some ob', g') \<and>
      framebuffer ob' = Null \<and> renderbuffer ob' = Null \<and> texture ob' = Null \<and>
      cleared ob' \<and>
      trace g' = [BindFramebuffer None, DeleteFramebuffer 11,
                  BindRenderbuffer None, DeleteRenderbuffer 12,
                  BindTexture None, DeleteTexture 13] \<and>
      deleteFramebuffer g' (Some ob') = (Some ob', g')) \<and>
   cleared \<lparr> framebuffer = Null, renderbuffer = Missing, texture = Null \<rparr> \<and>
   deleteFramebuffer gl_targets (Some \<lparr> framebuffer = Null, renderbuffer = Missing, texture = Null \<rparr>)
     = (Some \<lparr> framebuffer = Null, renderbuffer = Missing, texture = Null \<rparr>, gl_targets)"
proof -
  have live: "isFramebuffer gl_targets (Handle 11)"
    "isRenderbuffer gl_targets (Handle 12)"
    "isTexture gl_targets (Handle 13)"
    "trace gl_targets = []" "intact gl_targets target_a"
    "framebuffer target_a = Handle 11" "renderbuffer target_a = Handle 12"
    "texture target_a = Handle 13"
    by (simp_all add: gl_targets_def target_a_def gl0_def isFramebuffer_def isRenderbuffer_def
          isTexture_def intact_def)
  have c: "cleared \<lparr> framebuffer = Null, renderbuffer = Missing, texture = Null \<rparr>"
    by (simp add: cleared_def)
  from deleteFramebuffer_idempotent [of gl_targets target_a]
  have 1: "\<exists>ob' g'. deleteFramebuffer gl_targets (Some target_a) = (Some ob', g') \<and>
      framebuffer ob' = Null \<and> renderbuffer ob' = Null \<and> texture ob' = Null \<and>
      cleared ob' \<and>
      trace g' = [BindFramebuffer None, DeleteFramebuffer 11,
                  BindRenderbuffer None, DeleteRenderbuffer 12,
                  BindTexture None, DeleteTexture 13] \<and>
      deleteFramebuffer g' (Some ob') = (Some ob', g')"
    by (simp add: live unbind_then_delete_def) blast
  from c deleteFramebuffer_idempotent
           [of gl_targets "\<lparr> framebuffer = Null, renderbuffer = Missing, texture = Null \<rparr>"]
  have 2: "deleteFramebuffer gl_targets
             (Some \<lparr> framebuffer = Null, renderbuffer = Missing, texture = Null \<rparr>)
     = (Some \<lparr> framebuffer = Null, renderbuffer = Missing, texture = Null \<rparr>, gl_targets)"
    by blast
  from 1 c 2 show ?thesis by blast
qed

text \<open>
  The claim C5 as stated fails: a bundle whose objects the context does not know, as
  after the loss of the context or when they were deleted by other means, keeps its
  three fields: the code clears a field only after \<open>isFramebuffer\<close>, \<open>isRenderbuffer\<close>
  or \<open>isTexture\<close> has answered true.
\<close>

theorem deleteFramebuffer_keeps_unknown_handle:
  "framebuffer target_a = Handle 11 \<and> renderbuffer target_a = Handle 12 \<and>
   texture target_a = Handle 13 \<and>
   deleteFramebuffer gl0 (Some target_a) = (Some target_a, gl0) \<and>
   \<not> cleared target_a"
  by (simp add: deleteFramebuffer_def target_a_def gl0_def cleared_def gl_defs)

text \<open>
  C1. \<open>resizeFramebuffer\<close> tests the bundle it is given, but binds the renderbuffer and
  the texture of \<open>this.buffers\<close>. Called on a bundle of two live objects with
  \<open>WebGLUtility.buffers\<close> undefined, as it is everywhere in the repository, it throws a
  TypeError and resizes nothing; with \<open>WebGLUtility.buffers\<close> another bundle, the storage
  of that other bundle is resized and the storage of the bundle given is not.
\<close>

theorem resizeFramebuffer_resizes_another_object:
  "resizeFramebuffer gl_targets None (Some target_a) 800 600 =
     (Some (TypeError ''Cannot read properties of undefined (reading renderbuffer)''), gl_targets) \<and>
   fst (resizeFramebuffer gl_targets (Some target_b) (Some target_a) 800 600) = None \<and>
   renderbuffers (snd (resizeFramebuffer gl_targets (Some target_b) (Some target_a) 800 600)) 12
     = Some (640, 480) \<and>
   textures (snd (resizeFramebuffer gl_targets (Some target_b) (Some target_a) 800 600)) 13
     = Some (640, 480) \<and>
   renderbuffers (snd (resizeFramebuffer gl_targets (Some target_b) (Some target_a) 800 600)) 22
     = Some (800, 600) \<and>
   textures (snd (resizeFramebuffer gl_targets (Some target_b) (Some target_a) 800 600)) 23
     = Some (800, 600)"
  by (simp add: resizeFramebuffer_def gl_targets_def target_a_def target_b_def gl0_def gl_defs
        renderbufferStorage_def texImage2D_def emit_def)




text \<open>
  C10. \<open>setCoords\<close> called while \<open>Common.canvas\<close> is \<open>null\<close> returns at once and leaves
  the whole page as it was: the coordinates, the previous coordinates, the
  \<open>pointerMoved\<close> flag, the timer, and the timeouts of the window.
\<close>

theorem setCoords_before_init:
  assumes "canvas (common pg) = None"
  shows "setCoords px py pg = pg"
  using assms by (simp add: setCoords_def)

theorem setCoords_before_init_witness:
  "canvas (common fresh_page) = None \<and> setCoords 400 300 fresh_page = fresh_page"
proof -
  have h: "canvas (common fresh_page) = None"
    by (simp add: fresh_page_def Common_constructor_def)
  from h setCoords_before_init [OF h, of 400 300] show ?thesis by simp
qed

text \<open>
  C6. On a canvas of width W and height H, both positive, \<open>setCoords\<close> sends the pixel
  (0, 0) to (-1, 1), the pixel (W, H) to (1, -1) and the pixel (W/2, H/2) to (0, 0);
  every pixel of the canvas goes into the square from -1 to 1, and a pixel lower on the
  page gets a smaller second coordinate.
\<close>

theorem setCoords_normalizes:
  assumes "canvas (common pg) = Some cv" and "0 < width cv" and "0 < height cv"
  shows "coords (pointer (setCoords 0 0 pg)) = (- 1, 1) \<and>
         coords (pointer (setCoords (real (width cv)) (real (height cv)) pg)) = (1, - 1) \<and>
         coords (pointer (setCoords (real (width cv) / 2) (real (height cv) / 2) pg)) = (0, 0) \<and>
         (0 \<le> px \<and> px \<le> real (width cv) \<and> 0 \<le> py \<and> py \<le> real (height cv) \<longrightarrow>
            - 1 \<le> fst (coords (pointer (setCoords px py pg))) \<and>
            fst (coords (pointer (setCoords px py pg))) \<le> 1 \<and>
            - 1 \<le> snd (coords (pointer (setCoords px py pg))) \<and>
            snd (coords (pointer (setCoords px py pg))) \<le> 1) \<and>
         (py \<le> py' \<longrightarrow> snd (coords (pointer (setCoords px py' pg)))
                            \<le> snd (coords (pointer (setCoords px py pg))))"
proof -
  have w: "0 < real (width cv)" and h: "0 < real (height cv)"
    using assms by simp_all
  have lin: "0 \<le> a \<Longrightarrow> a \<le> 1 \<Longrightarrow> - 1 \<le> a * 2 - 1 \<and> a * 2 - 1 \<le> 1 \<and>
               - 1 \<le> - a * 2 + 1 \<and> - a * 2 + 1 \<le> 1" for a :: real
    by simp
  have range: "- 1 \<le> px / real (width cv) * 2 - 1 \<and> px / real (width cv) * 2 - 1 \<le> 1 \<and>
               - 1 \<le> - (py / real (height cv)) * 2 + 1 \<and> - (py / real (height cv)) * 2 + 1 \<le> 1"
    if "0 \<le> px \<and> px \<le> real (width cv) \<and> 0 \<le> py \<and> py \<le> real (height cv)"
  proof -
    from that w have "0 \<le> px / real (width cv)" "px / real (width cv) \<le> 1" by simp_all
    from lin [OF this] have 1: "- 1 \<le> px / real (width cv) * 2 - 1 \<and> px / real (width cv) * 2 - 1 \<le> 1"
      by blast
    from that h have "0 \<le> py / real (height cv)" "py / real (height cv) \<le> 1" by simp_all
    from lin [OF this] have 2: "- 1 \<le> - (py / real (height cv)) * 2 + 1 \<and> - (py / real (height cv)) * 2 + 1 \<le> 1"
      by blast
    from 1 2 show ?thesis by blast
  qed
  have mono: "- (py' / real (height cv)) * 2 + 1 \<le> - (py / real (height cv)) * 2 + 1" if "py \<le> py'"
    using that h by (simp add: divide_right_mono)
  show ?thesis
    using w h range mono by (simp add: setCoords_coords [OF assms(1)])
qed


theorem setCoords_normalizes_witness:
  "coords (pointer (setCoords 0 0 page0)) = (- 1, 1) \<and>
   coords (pointer (setCoords 800 600 page0)) = (1, - 1) \<and>
   coords (pointer (setCoords 400 300 page0)) = (0, 0) \<and>
   - 1 \<le> fst (coords (pointer (setCoords 200 150 page0))) \<and>
   snd (coords (pointer (setCoords 200 450 page0))) \<le> snd (coords (pointer (setCoords 200 150 page0)))"
proof -
  have h: "canvas (common page0) = Some \<lparr> width = 800, height = 600 \<rparr>"
    "0 < width \<lparr> width = 800, height = 600 \<rparr>" "0 < height \<lparr> width = 800, height = 600 \<rparr>"
    by (simp_all add: page0_def fresh_page_def Common_constructor_def)
  from setCoords_normalizes [OF h, of 200 150 450] show ?thesis by simp
qed

text \<open>
  C8. Each \<open>render\<close> calls \<open>requestAnimationFrame\<close> before any of the frame's work, whose
  first act is to read the clock, and only when \<open>Common.running\<close> is true. Setting the
  flag to false at any point of the frame's work is the same as setting it after the
  frame. When that happens in a frame that found the flag true, one frame is left
  scheduled; at the next refresh it does all its work and schedules nothing; and from
  then on, whatever refreshes, pointer events and timeouts follow, the flag stays
  false, no frame is scheduled and \<open>requestAnimationFrame\<close> is not called again.
\<close>

theorem render_stops_one_frame_late:
  "(\<exists>cs. calls (window (WebGLApp_render now pg)) =
           calls (window pg) @ (if running (common pg) then [RequestAnimationFrame] else [])
             @ DateNow # cs \<and>
         RequestAnimationFrame \<notin> set cs) \<and>
   animationFrames (window (WebGLApp_render now pg)) =
     animationFrames (window pg) + (if running (common pg) then 1 else 0) \<and>
   stopped_during now pg = set_running False (WebGLApp_render now pg) \<and>
   Output_update (set_running b pg) = set_running b (Output_update pg) \<and>
   (running (common pg) \<and> animationFrames (window pg) = 0 \<longrightarrow>
      animationFrames (window (stopped_during now pg)) = 1 \<and>
      animation_frame now' (stopped_during now pg) =
        frame_work now'
          ((stopped_during now pg)
             \<lparr>window := (window (stopped_during now pg))\<lparr>animationFrames := 0\<rparr>\<rparr>) \<and>
      (\<exists>cs. calls (window (animation_frame now' (stopped_during now pg))) =
              calls (window (stopped_during now pg)) @ DateNow # cs \<and>
            RequestAnimationFrame \<notin> set cs) \<and>
      animationFrames (window (animation_frame now' (stopped_during now pg))) = 0 \<and>
      \<not> running (common (fold browser es (animation_frame now' (stopped_during now pg)))) \<and>
      animationFrames
        (window (fold browser es (animation_frame now' (stopped_during now pg)))) = 0 \<and>
      scheduled (fold browser es (animation_frame now' (stopped_during now pg))) =
        scheduled (stopped_during now pg))"
proof (intro conjI impI)
  show "\<exists>cs. calls (window (WebGLApp_render now pg)) =
           calls (window pg) @ (if running (common pg) then [RequestAnimationFrame] else [])
             @ DateNow # cs \<and>
         RequestAnimationFrame \<notin> set cs"
    by (rule render_calls)
  show "animationFrames (window (WebGLApp_render now pg)) =
     animationFrames (window pg) + (if running (common pg) then 1 else 0)"
    by (rule render_frames)
  show "stopped_during now pg = set_running False (WebGLApp_render now pg)"
    by (rule stopped_during_eq)
  show "Output_update (set_running b pg) = set_running b (Output_update pg)"
    by (rule Output_update_set_running)
next
  assume a: "running (common pg) \<and> animationFrames (window pg) = 0"
  let ?s = "stopped_during now pg"
  let ?z = "?s\<lparr>window := (window ?s)\<lparr>animationFrames := 0\<rparr>\<rparr>"
  from a show one: "animationFrames (window ?s) = 1"
    by (simp add: stopped_during_fields)
  have off: "\<not> running (common ?s)"
    by (rule stopped_during_fields)
  from one off show last: "animation_frame now' ?s = frame_work now' ?z"
    by (simp add: animation_frame_def WebGLApp_render_def)
  from frame_work_keeps(3) [of now' ?z]
  show calls: "\<exists>cs. calls (window (animation_frame now' ?s)) = calls (window ?s) @ DateNow # cs \<and>
            RequestAnimationFrame \<notin> set cs"
    unfolding last by simp
  show zero: "animationFrames (window (animation_frame now' ?s)) = 0"
    unfolding last by (simp add: frame_work_keeps)
  have off': "\<not> running (common (animation_frame now' ?s))"
    unfolding last using off by (simp add: frame_work_keeps)
  from calls have same: "scheduled (animation_frame now' ?s) = scheduled ?s"
    by (auto simp: scheduled_def filter_empty_conv)
  from stopped_forever [OF off' zero, of es] same
  show "\<not> running (common (fold browser es (animation_frame now' ?s)))"
    and "animationFrames (window (fold browser es (animation_frame now' ?s))) = 0"
    and "scheduled (fold browser es (animation_frame now' ?s)) = scheduled ?s"
    by simp_all
qed

theorem render_stops_one_frame_late_witness:
  "running (common (set_running True page0)) \<and>
   animationFrames (window (set_running True page0)) = 0 \<and>
   animationFrames (window (stopped_during 1016 (set_running True page0))) = 1 \<and>
   animationFrames
     (window (animation_frame 1033 (stopped_during 1016 (set_running True page0)))) = 0 \<and>
   scheduled (fold browser [Refresh 1049, PointerAt 10 20, Refresh 1066, Expire 1]
               (animation_frame 1033 (stopped_during 1016 (set_running True page0)))) =
     scheduled (stopped_during 1016 (set_running True page0))"
proof -
  have h: "running (common (set_running True page0)) \<and>
           animationFrames (window (set_running True page0)) = 0"
    by (simp add: set_running_def page0_def fresh_page_def)
  from h render_stops_one_frame_late
         [of 1016 "set_running True page0" True 1033
             "[Refresh 1049, PointerAt 10 20, Refresh 1066, Expire 1]"]
  show ?thesis by blast
qed

text \<open>
  C9, amended. When the context creates no buffer, \<open>createVbo\<close> returns \<open>null\<close> and
  \<open>Output.init\<close> goes on without failing or reporting anything for it: it records the
  geometry with the empty array in the place of the buffer and constructs the shader
  program, the next command after the failed creation of the buffer being the creation
  of the vertex shader. What \<open>init\<close> then returns or throws is what that construction
  returns or throws: \<open>init\<close> succeeds exactly when the shaders compile and the program
  links, with no \<open>alert\<close> and nothing sent to the window, and it throws otherwise. When
  it has succeeded the failure shows at draw time: \<open>render\<close> on the page that \<open>init\<close>
  left reports an error with \<open>console.error\<close> and draws nothing.
\<close>

theorem Output_init_without_vertex_buffer:
  assumes "gl (common pg) = Some g" and "\<not> creatable g Buffer"
  shows "createVbo g (fst (createPlaneAttribute 2 2)) = (None, emit [Create Buffer None] g) \<and>
         Output_init bv fr pg =
           (case ShaderProgram_constructor (emit [Create Buffer None] g) (load_options bv fr) of
              (Inl e, g1) \<Rightarrow>
                (Some e, (without_buffer g pg)
                           \<lparr>common := (common (without_buffer g pg))\<lparr>gl := Some g1\<rparr>\<rparr>)
            | (Inr sp, g1) \<Rightarrow>
                (None, (without_buffer g pg)
                         \<lparr>common := (common (without_buffer g pg))\<lparr>gl := Some g1\<rparr>,
                          app_output := (app_output (without_buffer g pg))
                                          \<lparr>shaderProgram := Some sp\<rparr>\<rparr>)) \<and>
         (\<exists>g1 es. gl (common (snd (Output_init bv fr pg))) = Some g1 \<and>
            trace g1 = trace g @ Create Buffer None
              # Create (Shader VERTEX_SHADER)
                  (if creatable g (Shader VERTEX_SHADER) then Some (fresh g) else None) # es \<and>
            (compiles_and_links (emit [Create Buffer None] g) (load_options bv fr) \<longrightarrow>
               Alert \<notin> set es)) \<and>
         calls (window (snd (Output_init bv fr pg))) = calls (window pg) \<and>
         plane (app_output (snd (Output_init bv fr pg))) = Some placeholder_plane \<and>
         (fst (Output_init bv fr pg) = None \<longleftrightarrow>
            compiles_and_links (emit [Create Buffer None] g) (load_options bv fr)) \<and>
         (fst (Output_init bv fr pg) = Some e \<longrightarrow>
            e = Error ''shader compilation failed'' \<or>
            e = Error ''shader program creation failed'') \<and>
         (fst (Output_init bv fr pg) = None \<longrightarrow>
            (\<exists>sp. shaderProgram (app_output (snd (Output_init bv fr pg))) = Some sp) \<and>
            (\<exists>msg g1 G es.
               gl (common (snd (Output_init bv fr pg))) = Some g1 \<and>
               Output_render (snd (Output_init bv fr pg)) =
                 (snd (Output_init bv fr pg))
                   \<lparr>common := (common (snd (Output_init bv fr pg)))\<lparr>gl := Some G\<rparr>,
                    window := call [ConsoleError msg] (window pg)\<rparr> \<and>
               trace G = trace g1 @ es \<and> (\<forall>n. DrawArrays n \<notin> set es)))"
proof -
  let ?g = "emit [Create Buffer None] g"
  let ?w = "without_buffer g pg"
  let ?c = "ShaderProgram_constructor ?g (load_options bv fr)"
  note init = Output_init_constructs [OF assms, of bv fr]
  have paired: "descriptors_paired (load_options bv fr)"
    by (simp add: descriptors_paired_def load_options_def)
  have win: "window (snd (Output_init bv fr pg)) = window pg"
    unfolding Output_init_placeholder [OF assms]
    by (simp add: Output_load_keeps without_buffer_def)
  have pl: "plane (app_output (snd (Output_init bv fr pg))) = Some placeholder_plane"
    unfolding Output_init_placeholder [OF assms]
    by (simp add: Output_load_keeps without_buffer_def)
  obtain r g1 where c: "?c = (r, g1)"
    by (cases ?c)
  have ctx: "gl (common (snd (Output_init bv fr pg))) = Some g1"
    using Output_init_context [OF assms, of bv fr] c by simp
  from constructor_proceeds [OF paired, of ?g] c obtain es where
    es: "trace g1 = trace ?g @ Create (Shader VERTEX_SHADER)
           (if creatable g (Shader VERTEX_SHADER) then Some (fresh g) else None) # es"
    by auto
  have quiet: "Alert \<notin> set es"
    if cl: "compiles_and_links ?g (load_options bv fr)"
    using constructor_quiet [OF paired cl] es by (simp add: c)
  have ok: "fst (Output_init bv fr pg) = None \<longleftrightarrow>
            compiles_and_links ?g (load_options bv fr)"
  proof
    assume "fst (Output_init bv fr pg) = None"
    with c obtain sp where "r = Inr sp"
      unfolding init by (cases r) simp_all
    with c constructor_Inr [of ?g "load_options bv fr" sp g1]
    show "compiles_and_links ?g (load_options bv fr)" by simp
  next
    assume "compiles_and_links ?g (load_options bv fr)"
    from constructor_succeeds [OF paired this] obtain sp g2 where "?c = (Inr sp, g2)"
      by blast
    then show "fst (Output_init bv fr pg) = None"
      unfolding init by simp
  qed
  have err: "e = Error ''shader compilation failed'' \<or>
             e = Error ''shader program creation failed''"
    if "fst (Output_init bv fr pg) = Some e"
  proof (cases r)
    case (Inl e')
    with that c have "e' = e"
      unfolding init by simp
    with constructor_errors [OF c [unfolded Inl] paired] show ?thesis by simp
  next
    case (Inr sp)
    with that c show ?thesis
      unfolding init by simp
  qed
  have draw: "(\<exists>sp. shaderProgram (app_output (snd (Output_init bv fr pg))) = Some sp) \<and>
            (\<exists>msg g1 G es.
               gl (common (snd (Output_init bv fr pg))) = Some g1 \<and>
               Output_render (snd (Output_init bv fr pg)) =
                 (snd (Output_init bv fr pg))
                   \<lparr>common := (common (snd (Output_init bv fr pg)))\<lparr>gl := Some G\<rparr>,
                    window := call [ConsoleError msg] (window pg)\<rparr> \<and>
               trace G = trace g1 @ es \<and> (\<forall>n. DrawArrays n \<notin> set es))"
    if "fst (Output_init bv fr pg) = None"
  proof (cases r)
    case (Inl e')
    with that c show ?thesis
      unfolding init by simp
  next
    case (Inr sp)
    let ?pg = "snd (Output_init bv fr pg)"
    from Inr c have 1: "gl (common ?pg) = Some g1" "shaderProgram (app_output ?pg) = Some sp"
      unfolding init by simp_all
    from constructor_attribute [OF c [unfolded Inr]]
    have 2: "length (attribute sp) = 1"
      by (simp add: load_options_def)
    have 3: "vbo placeholder_plane = [EmptyArray]"
      by (simp add: placeholder_plane_def)
    from render_with_placeholder [OF 1 pl 3 2] win 1 show ?thesis
      by auto
  qed
  from ctx es quiet
  have tr: "\<exists>g1 es. gl (common (snd (Output_init bv fr pg))) = Some g1 \<and>
            trace g1 = trace g @ Create Buffer None
              # Create (Shader VERTEX_SHADER)
                  (if creatable g (Shader VERTEX_SHADER) then Some (fresh g) else None) # es \<and>
            (compiles_and_links ?g (load_options bv fr) \<longrightarrow> Alert \<notin> set es)"
    by (intro exI [of _ g1] exI [of _ es]) simp
  from win have calls: "calls (window (snd (Output_init bv fr pg))) = calls (window pg)"
    by simp
  from createVbo_fails [OF assms(2)] init tr calls pl ok err draw show ?thesis
    by blast
qed

theorem Output_init_without_vertex_buffer_witness:
  "gl (common page_no_buffer) = Some gl_no_buffer \<and> \<not> creatable gl_no_buffer Buffer \<and>
   compiles_and_links (emit [Create Buffer None] gl_no_buffer)
     (load_options ''void main() {}'' ''void main() {}'') \<and>
   fst (Output_init ''void main() {}'' ''void main() {}'' page_no_buffer) = None \<and>
   plane (app_output (snd (Output_init ''void main() {}'' ''void main() {}'' page_no_buffer)))
     = Some placeholder_plane \<and>
   (\<exists>sp. shaderProgram
           (app_output (snd (Output_init ''void main() {}'' ''void main() {}'' page_no_buffer)))
         = Some sp)"
proof -
  have h: "gl (common page_no_buffer) = Some gl_no_buffer" "\<not> creatable gl_no_buffer Buffer"
    by (simp_all add: page_no_buffer_def gl_no_buffer_def)
  have c: "compiles_and_links (emit [Create Buffer None] gl_no_buffer)
             (load_options ''void main() {}'' ''void main() {}'')"
    by (simp add: compiles_and_links_def gl_no_buffer_def gl0_def)
  from h c Output_init_without_vertex_buffer
             [OF h, of "''void main() {}''" "''void main() {}''"]
  show ?thesis by blast
qed


text \<open>
  The claim C9 as stated fails: on a lost context, which creates neither buffers nor
  shaders, \<open>createVbo\<close> returns \<open>null\<close> and \<open>init\<close> does fail, at the construction of the
  shader program.
\<close>

theorem Output_init_fails_on_lost_context:
  "gl (common page_lost) = Some gl_lost \<and> \<not> creatable gl_lost Buffer \<and>
   createVbo gl_lost (fst (createPlaneAttribute 2 2)) = (None, emit [Create Buffer None] gl_lost) \<and>
   fst (Output_init ''void main() {}'' ''void main() {}'' page_lost)
     = Some (Error ''shader compilation failed'')"
  by (simp add: page_lost_def gl_lost_def page0_def fresh_page_def Common_constructor_def
        Output_init_def Output_load_def createVbo_def gl_create_def createPlaneAttribute_def
        ShaderProgram_constructor_def Array_isArray_def createShader_eq gl0_def Let_def)

end
